theory Spec2Isabelle
  imports Main "HOL-Library.Sublist" "HOL-Library.AList" "HOL-Library.Word"
begin

section \<open>JavaScript strings\<close>

text \<open>
  A string of the program is modelled as a \<^typ>\<open>string\<close>: a list of 8-bit characters, read
  as the code units U+0000 to U+00FF. The helper functions below are the built-in string
  methods the source calls, restricted to that alphabet. Only the component that
  highlights words, whose behaviour depends on code units beyond these, is modelled on
  strings of 16-bit code units.
\<close>

definition is_whitespace :: "char \<Rightarrow> bool" where
  \<comment> \<open>WhiteSpace and LineTerminator of ECMAScript below U+0100: TAB, LF, VT, FF, CR, SP, NBSP.\<close>
  "is_whitespace c \<longleftrightarrow>
     c \<in> set [CHR 0x09, CHR 0x0A, CHR 0x0B, CHR 0x0C, CHR 0x0D, CHR 0x20, CHR 0xA0]"

definition trimStart :: "string \<Rightarrow> string" where
  "trimStart s = dropWhile is_whitespace s"

definition trimEnd :: "string \<Rightarrow> string" where
  "trimEnd s = rev (dropWhile is_whitespace (rev s))"

definition trim :: "string \<Rightarrow> string" where
  \<comment> \<open>\<^verbatim>\<open>String.prototype.trim\<close>\<close>
  "trim s = trimEnd (trimStart s)"

definition startsWith :: "string \<Rightarrow> string \<Rightarrow> bool" where
  "startsWith s p \<longleftrightarrow> prefix p s"

definition endsWith :: "string \<Rightarrow> string \<Rightarrow> bool" where
  "endsWith s p \<longleftrightarrow> suffix p s"

section \<open>Selection of vocabulary words (App, \<^verbatim>\<open>handleSelectionChange\<close>)\<close>

text \<open>
  \<^verbatim>\<open>setSelectedWords(prev => prev.includes(word) ? prev.filter(w => w !== word) : [...prev, word])\<close>
\<close>

definition handleSelectionChange :: "string \<Rightarrow> string list \<Rightarrow> string list" where
  "handleSelectionChange word prev =
     (if word \<in> set prev then filter (\<lambda>w. w \<noteq> word) prev else prev @ [word])"

section \<open>Thrown values, JSON values and the runtime\<close>

text \<open>
  Everything the program throws is \<^verbatim>\<open>new Error(message)\<close>; the service library and the
  runtime may also reject with a value that is no \<^verbatim>\<open>Error\<close>, which the handlers tell apart
  with \<^verbatim>\<open>error instanceof Error\<close>.
\<close>

datatype exn = Error string | Thrown_value

fun error_message :: "string \<Rightarrow> exn \<Rightarrow> string" where
  \<comment> \<open>\<^verbatim>\<open>error instanceof Error ? error.message : fallback\<close>\<close>
  "error_message fallback (Error m) = m"
| "error_message fallback Thrown_value = fallback"

datatype json =
  JNull | JBool bool | JNum int | JStr string | JArr "json list" | JObj "(string \<times> json) list"

text \<open>
  \<^verbatim>\<open>JSON.parse\<close> and the \<^verbatim>\<open>TypeError\<close> of a property read on \<^verbatim>\<open>null\<close> or
  \<^verbatim>\<open>undefined\<close> belong to the JavaScript engine, not to the repository: they are parameters
  of the model. A number is kept as an integer, since the code only asks whether it is zero.
\<close>

record runtime =
  JSON_parse :: "string \<Rightarrow> exn + json"
  type_error :: "string \<Rightarrow> exn"

definition get_prop :: "runtime \<Rightarrow> json \<Rightarrow> string \<Rightarrow> exn + json option" where
  \<comment> \<open>\<^verbatim>\<open>value.key\<close> for the keys the code reads; \<^verbatim>\<open>None\<close> is \<^verbatim>\<open>undefined\<close>\<close>
  "get_prop rt v k =
     (case v of
        JNull \<Rightarrow> Inl (type_error rt k)
      | JObj kvs \<Rightarrow> Inr (map_of kvs k)
      | _ \<Rightarrow> Inr None)"

fun truthy :: "json option \<Rightarrow> bool" where
  "truthy None = False"
| "truthy (Some JNull) = False"
| "truthy (Some (JBool b)) = b"
| "truthy (Some (JNum n)) = (n \<noteq> 0)"
| "truthy (Some (JStr s)) = (s \<noteq> [])"
| "truthy (Some (JArr xs)) = True"
| "truthy (Some (JObj kvs)) = True"

fun length_is_zero :: "json \<Rightarrow> bool" where
  \<comment> \<open>\<^verbatim>\<open>value.length === 0\<close> on a truthy value\<close>
  "length_is_zero (JArr xs) = (xs = [])"
| "length_is_zero (JStr s) = (s = [])"
| "length_is_zero (JObj kvs) = (map_of kvs ''length'' = Some (JNum 0))"
| "length_is_zero _ = False"

fun string_of_json :: "json \<Rightarrow> string option" where
  \<comment> \<open>\<^verbatim>\<open>typeof item === 'string'\<close>\<close>
  "string_of_json (JStr s) = Some s"
| "string_of_json _ = None"

definition digit_char :: "nat \<Rightarrow> char" where
  "digit_char n = ''0123456789'' ! n"

function show_nat :: "nat \<Rightarrow> string" where
  \<comment> \<open>a number inside a template literal\<close>
  "show_nat n = (if n < 10 then [digit_char n] else show_nat (n div 10) @ [digit_char (n mod 10)])"
  by pat_completeness auto
termination
  by (relation "measure id") auto

declare show_nat.simps [simp del]

section \<open>The generation client (geminiService)\<close>

datatype client = GoogleGenAI string

datatype prompt =
    Vocabulary_prompt string
  | Worksheet_prompt string "string list"
  | Definition_prompt string
  | Ascii_art_prompt string

datatype request = Generate_content prompt | Generate_content_stream prompt

text \<open>
  The state the client module reads and writes: its global \<^verbatim>\<open>ai\<close>, the browser's
  \<^verbatim>\<open>localStorage\<close> (whose \<^verbatim>\<open>setItem\<close> can throw), the two build-time environment values,
  and the log of the requests sent to the service.
\<close>

record env =
  ai :: "client option"
  window_defined :: bool
  localStorage :: "(string \<times> string) list"
  storage_writable :: bool
  vite_key :: "string option"
  node_key :: "string option"
  requests :: "request list"

definition getItem :: "env \<Rightarrow> string \<Rightarrow> string option" where
  "getItem e k = map_of (localStorage e) k"

definition nonblank :: "string option \<Rightarrow> bool" where
  \<comment> \<open>\<^verbatim>\<open>key && key.trim()\<close>\<close>
  "nonblank k = (case k of None \<Rightarrow> False | Some s \<Rightarrow> s \<noteq> [] \<and> trim s \<noteq> [])"

definition getCurrentApiKey :: "env \<Rightarrow> string option" where
  "getCurrentApiKey e =
     (if window_defined e \<and> nonblank (getItem e ''gemini_api_key'')
      then getItem e ''gemini_api_key''
      else if nonblank (vite_key e) then vite_key e
      else if node_key e \<noteq> None \<and> node_key e \<noteq> Some [] \<and> node_key e \<noteq> Some ''PLACEHOLDER_API_KEY''
      then node_key e
      else None)"

definition ensureAiClient :: "env \<Rightarrow> exn + (client \<times> env)" where
  "ensureAiClient e =
     (case ai e of
        Some c \<Rightarrow> Inr (c, e)
      | None \<Rightarrow>
         (case getCurrentApiKey e of
            None \<Rightarrow> Inl (Error ''No API key configured. Please set up your Gemini API key.'')
          | Some k \<Rightarrow>
              if k = [] then Inl (Error ''No API key configured. Please set up your Gemini API key.'')
              else Inr (GoogleGenAI k, e\<lparr>ai := Some (GoogleGenAI k)\<rparr>)))"

definition setApiKey :: "string option \<Rightarrow> env \<Rightarrow> env" where
  "setApiKey k e =
     (case k of
        None \<Rightarrow> e\<lparr>ai := None\<rparr>
      | Some s \<Rightarrow> if s \<noteq> [] \<and> trim s \<noteq> [] then e\<lparr>ai := Some (GoogleGenAI (trim s))\<rparr> else e\<lparr>ai := None\<rparr>)"

definition send :: "request \<Rightarrow> env \<Rightarrow> env" where
  \<comment> \<open>a call of \<^verbatim>\<open>client.models.generateContent\<close> or \<^verbatim>\<open>generateContentStream\<close>\<close>
  "send r e = e\<lparr>requests := requests e @ [r]\<rparr>"

text \<open>
  What the service answers to \<^verbatim>\<open>generateContent\<close>: the promise rejects, or it resolves
  with a response whose \<^verbatim>\<open>text\<close> is a string or \<^verbatim>\<open>undefined\<close>.
\<close>

datatype gen_response = Rejected exn | Response "string option"

definition parse_response_text :: "runtime \<Rightarrow> string option \<Rightarrow> exn + json" where
  \<comment> \<open>\<^verbatim>\<open>JSON.parse(response.text)\<close>: an \<^verbatim>\<open>undefined\<close> argument is parsed as its name\<close>
  "parse_response_text rt t = JSON_parse rt (case t of None \<Rightarrow> ''undefined'' | Some s \<Rightarrow> s)"

subsection \<open>\<^verbatim>\<open>analyzeTextForVocabulary\<close>\<close>

definition vocabulary_of_response :: "runtime \<Rightarrow> gen_response \<Rightarrow> exn + string list" where
  \<comment> \<open>the body of the \<^verbatim>\<open>try\<close> block, from the settled request on\<close>
  "vocabulary_of_response rt resp =
     (case resp of
        Rejected x \<Rightarrow> Inl x
      | Response t \<Rightarrow>
         (case parse_response_text rt t of
            Inl x \<Rightarrow> Inl x
          | Inr (JArr items) \<Rightarrow>
              if list_all (\<lambda>item. string_of_json item \<noteq> None) items
              then Inr (map (\<lambda>item. the (string_of_json item)) items)
              else Inl (Error ''API returned data in an unexpected format.'')
          | Inr _ \<Rightarrow> Inl (Error ''API returned data in an unexpected format.'')))"

definition analyzeTextForVocabulary ::
  "runtime \<Rightarrow> gen_response \<Rightarrow> string \<Rightarrow> env \<Rightarrow> (exn + string list) \<times> env" where
  "analyzeTextForVocabulary rt resp text e =
     (case ensureAiClient e of
        Inl x \<Rightarrow> (Inl x, e)
      | Inr (c, e1) \<Rightarrow>
          if trim text = [] then (Inr [], e1)
          else
            (case vocabulary_of_response rt resp of
               Inr result \<Rightarrow> (Inr result, send (Generate_content (Vocabulary_prompt text)) e1)
             | Inl x \<Rightarrow>
                 (Inl (Error (''Could not analyze text for vocabulary: '' @
                         error_message ''An unknown error occurred.'' x)),
                  send (Generate_content (Vocabulary_prompt text)) e1)))"

subsection \<open>\<^verbatim>\<open>generateWorksheetData\<close>\<close>

definition worksheet_of_response :: "runtime \<Rightarrow> gen_response \<Rightarrow> exn + json" where
  \<comment> \<open>the body of the \<^verbatim>\<open>try\<close> block, from the settled request on\<close>
  "worksheet_of_response rt resp =
     (case resp of
        Rejected x \<Rightarrow> Inl x
      | Response t \<Rightarrow>
         (case parse_response_text rt t of
            Inl x \<Rightarrow> Inl x
          | Inr data \<Rightarrow>
             (case get_prop rt data ''title'' of
                Inl x \<Rightarrow> Inl x
              | Inr title \<Rightarrow>
                  if \<not> truthy title then Inl (Error ''API returned incomplete worksheet data.'')
                  else
                    (case get_prop rt data ''wordDetails'' of
                       Inl x \<Rightarrow> Inl x
                     | Inr wordDetails \<Rightarrow>
                         if \<not> truthy wordDetails \<or> length_is_zero (the wordDetails)
                         then Inl (Error ''API returned incomplete worksheet data.'')
                         else Inr data))))"

definition generateWorksheetData ::
  "runtime \<Rightarrow> gen_response \<Rightarrow> string \<Rightarrow> string list \<Rightarrow> env \<Rightarrow> (exn + json) \<times> env" where
  "generateWorksheetData rt resp text words e =
     (case ensureAiClient e of
        Inl x \<Rightarrow> (Inl x, e)
      | Inr (c, e1) \<Rightarrow>
          if trim text = [] \<or> words = []
          then (Inl (Error ''Invalid input for worksheet generation.''), e1)
          else
            (case worksheet_of_response rt resp of
               Inr data \<Rightarrow> (Inr data, send (Generate_content (Worksheet_prompt text words)) e1)
             | Inl x \<Rightarrow>
                 (Inl (Error (''Could not generate worksheet: '' @
                         error_message ''An unknown error occurred.'' x)),
                  send (Generate_content (Worksheet_prompt text words)) e1)))"

subsection \<open>\<^verbatim>\<open>streamDefinition\<close>\<close>

text \<open>
  What the service answers to \<^verbatim>\<open>generateContentStream\<close>: the promise rejects, or it
  resolves with an asynchronous sequence of chunks (the \<^verbatim>\<open>text\<close> of each, possibly
  \<^verbatim>\<open>undefined\<close>) that ends normally or fails after them.

  The generator is modelled by what it does when it is consumed to its end: the chunks it
  yields, in order, and the value it throws at the end, if any.
\<close>

datatype stream_response = Stream_rejected exn | Stream "string option list" "exn option"

definition chunk_texts :: "string option list \<Rightarrow> string list" where
  \<comment> \<open>\<^verbatim>\<open>if (chunk.text) yield chunk.text\<close>\<close>
  "chunk_texts chunks = concat (map (\<lambda>t. case t of None \<Rightarrow> [] | Some s \<Rightarrow> if s = [] then [] else [s]) chunks)"

definition stream_failure_chunk :: "string \<Rightarrow> exn \<Rightarrow> string" where
  "stream_failure_chunk topic x =
     ''Error: Could not generate content for \"'' @ topic @ ''\". '' @
       error_message ''An unknown error occurred.'' x"

definition streamDefinition ::
  "stream_response \<Rightarrow> string \<Rightarrow> env \<Rightarrow> (string list \<times> exn option) \<times> env" where
  "streamDefinition resp topic e =
     (case ensureAiClient e of
        Inl x \<Rightarrow> (([''Error: '' @ error_message ''API key not configured.'' x], None), e)
      | Inr (c, e1) \<Rightarrow>
         (case resp of
            Stream_rejected x \<Rightarrow>
              (([stream_failure_chunk topic x],
                Some (Error (error_message ''An unknown error occurred.'' x))),
               send (Generate_content_stream (Definition_prompt topic)) e1)
          | Stream chunks None \<Rightarrow>
              ((chunk_texts chunks, None),
               send (Generate_content_stream (Definition_prompt topic)) e1)
          | Stream chunks (Some x) \<Rightarrow>
              ((chunk_texts chunks @ [stream_failure_chunk topic x],
                Some (Error (error_message ''An unknown error occurred.'' x))),
               send (Generate_content_stream (Definition_prompt topic)) e1)))"

subsection \<open>\<^verbatim>\<open>generateAsciiArt\<close>\<close>

record AsciiArtData =
  art :: string
  text_field :: "string option"

definition ENABLE_ASCII_TEXT_GENERATION :: bool where
  "ENABLE_ASCII_TEXT_GENERATION = False"

definition strip_code_fence :: "string \<Rightarrow> string" where
  \<comment> \<open>the \<^verbatim>\<open>replace\<close> of a whole string that is one fenced block by the block's content,
      without the optional \<^verbatim>\<open>json\<close> tag and the white space around the content\<close>
  "strip_code_fence s =
     (if startsWith s ''```'' \<and> endsWith s ''```'' \<and> 6 \<le> length s
      then
        let body = take (length s - 6) (drop 3 s);
            tagless = (if startsWith body ''json'' then drop 4 body else body)
        in trimEnd (trimStart tagless)
      else s)"

definition ascii_art_of_response :: "runtime \<Rightarrow> gen_response \<Rightarrow> exn + AsciiArtData" where
  \<comment> \<open>the body of the \<^verbatim>\<open>try\<close> block of one attempt, from the settled request on\<close>
  "ascii_art_of_response rt resp =
     (case resp of
        Rejected x \<Rightarrow> Inl x
      | Response None \<Rightarrow> Inl (type_error rt ''trim'')
      | Response (Some t) \<Rightarrow>
          let jsonStr = strip_code_fence (trim t) in
          if \<not> startsWith jsonStr ''{'' \<or> \<not> endsWith jsonStr ''}''
          then Inl (Error ''Response is not a valid JSON object'')
          else
            (case JSON_parse rt jsonStr of
               Inl x \<Rightarrow> Inl x
             | Inr parsedData \<Rightarrow>
                (case get_prop rt parsedData ''art'' of
                   Inl x \<Rightarrow> Inl x
                 | Inr (Some (JStr a)) \<Rightarrow>
                     if trim a = [] then Inl (Error ''Invalid or empty ASCII art in response'')
                     else if ENABLE_ASCII_TEXT_GENERATION
                     then
                       (case get_prop rt parsedData ''text'' of
                          Inl x \<Rightarrow> Inl x
                        | Inr txt \<Rightarrow>
                            Inr \<lparr>art = a,
                                 text_field = (if truthy txt then string_of_json (the txt) else None)\<rparr>)
                     else Inr \<lparr>art = a, text_field = None\<rparr>
                 | Inr _ \<Rightarrow> Inl (Error ''Invalid or empty ASCII art in response''))))"

definition maxRetries :: nat where
  "maxRetries = 1"

text \<open>
  The \<^verbatim>\<open>for\<close> loop over the attempts. \<^verbatim>\<open>resp n\<close> is what the service answers to the
  request of attempt \<^verbatim>\<open>n\<close>. The bound is an argument, so that the loop is the source's loop
  for any value of the constant.
\<close>

function attempts :: "runtime \<Rightarrow> (nat \<Rightarrow> gen_response) \<Rightarrow> string \<Rightarrow> nat \<Rightarrow> nat \<Rightarrow> env \<Rightarrow>
    (exn + AsciiArtData) \<times> env" where
  "attempts rt resp topic bound attempt e =
     (if attempt \<le> bound then
        (case ascii_art_of_response rt (resp attempt) of
           Inr result \<Rightarrow> (Inr result, send (Generate_content (Ascii_art_prompt topic)) e)
         | Inl x \<Rightarrow>
             if attempt = bound
             then (Inl (Error (''Could not generate ASCII art after '' @ show_nat bound @ '' attempts.'')),
                   send (Generate_content (Ascii_art_prompt topic)) e)
             else attempts rt resp topic bound (attempt + 1)
                    (send (Generate_content (Ascii_art_prompt topic)) e))
      else (Inl (Error ''All ASCII art generation attempts failed''), e))"
  by pat_completeness auto
termination
  by (relation "measure (\<lambda>(rt, resp, topic, bound, attempt, e). Suc bound - attempt)") auto

declare attempts.simps [simp del]

definition generateAsciiArt ::
  "runtime \<Rightarrow> (nat \<Rightarrow> gen_response) \<Rightarrow> string \<Rightarrow> env \<Rightarrow> (exn + AsciiArtData) \<times> env" where
  "generateAsciiArt rt resp topic e =
     (case ensureAiClient e of
        Inl x \<Rightarrow> (Inl x, e)
      | Inr (c, e1) \<Rightarrow> attempts rt resp topic maxRetries 1 e1)"

section \<open>The application state (App and ApiKeyManager)\<close>

datatype View = Analyzer | Definition | Worksheet

datatype LoadingState = Idle | Analyzing | Generating_worksheet | Loading_definition

text \<open>A progress step; its \<^verbatim>\<open>icon\<close>, an emoji, is left out.\<close>

record ProgressStep =
  step_id :: string
  label :: string
  completed :: bool
  active :: bool

record app =
  view :: View
  loadingState :: LoadingState
  mainText :: string
  analyzedWords :: "string list"
  selectedWords :: "string list"
  error :: "string option"
  apiKeyConfigured :: bool
  showProgress :: bool
  progressSteps :: "ProgressStep list"
  currentProgressStep :: string
  definitionTopic :: string
  definitionContent :: string
  asciiArt :: "AsciiArtData option"
  generationTime :: "nat option"
  worksheetData :: "json option"

datatype message_type = Success | Failure

record key_manager =
  apiKey :: string
  isKeySet :: bool
  isExpanded :: bool
  showKey :: bool
  message :: "(message_type \<times> string) option"

text \<open>
  One run of the definition effect: the variables its closures share (\<^verbatim>\<open>isCancelled\<close>,
  \<^verbatim>\<open>accumulatedContent\<close>, \<^verbatim>\<open>startTime\<close>), the settled value of the art promise while
  its callback has not run, and what the definition generator has still to deliver.
\<close>

record fetch =
  fetch_topic :: string
  isCancelled :: bool
  accumulatedContent :: string
  startTime :: nat
  art_promise :: "(exn + AsciiArtData) option"
  pending_yields :: "string list"
  stream_end :: "exn option"
  finished :: bool

datatype timer_action =
    Update_progress string
  | Reveal_words "string list"
  | Reveal_worksheet json
  | Clear_message

text \<open>
  The whole state: the client module's state, the two components' states, the clock, the
  timers set with \<^verbatim>\<open>setTimeout\<close> (with the time each is due; none is ever cleared), the
  runs of the definition effect, the run whose cleanup function React holds, and the
  dependencies \<^verbatim>\<open>[view, definitionTopic]\<close> of the effect's last run.
\<close>

record world =
  client_env :: env
  app :: app
  manager :: key_manager
  now :: nat
  timers :: "(nat \<times> timer_action) list"
  fetches :: "fetch list"
  cleanup :: "nat option"
  effect_deps :: "(View \<times> string) option"

text \<open>
  The service, as the answers it gives: \<^verbatim>\<open>gen_answer n\<close> to a \<^verbatim>\<open>generateContent\<close> request
  and \<^verbatim>\<open>stream_answer n\<close> to a \<^verbatim>\<open>generateContentStream\<close> request sent when \<^verbatim>\<open>n\<close> requests
  had been sent before.
\<close>

record service =
  gen_answer :: "nat \<Rightarrow> gen_response"
  stream_answer :: "nat \<Rightarrow> stream_response"

subsection \<open>Progress steps\<close>

datatype step_kind = Analyze_steps | Worksheet_steps | Definition_steps

definition mk_step :: "string \<Rightarrow> string \<Rightarrow> bool \<Rightarrow> ProgressStep" where
  "mk_step i l a = \<lparr>step_id = i, label = l, completed = False, active = a\<rparr>"

fun createProgressSteps :: "step_kind \<Rightarrow> ProgressStep list" where
  "createProgressSteps Analyze_steps =
     [mk_step ''preprocessing'' ''Preprocessing text content'' True,
      mk_step ''analysis'' ''AI analyzing vocabulary complexity'' False,
      mk_step ''ranking'' ''Ranking words by difficulty'' False,
      mk_step ''finalizing'' ''Preparing results'' False]"
| "createProgressSteps Worksheet_steps =
     [mk_step ''setup'' ''Setting up worksheet structure'' True,
      mk_step ''definitions'' ''Generating definitions and translations'' False,
      mk_step ''questions'' ''Creating test questions'' False,
      mk_step ''formatting'' ''Formatting final worksheet'' False]"
| "createProgressSteps Definition_steps =
     [mk_step ''research'' ''Researching term definition'' True,
      mk_step ''ascii'' ''Generating ASCII art visualization'' False,
      mk_step ''content'' ''Streaming definition content'' False]"

fun findIndex :: "('a \<Rightarrow> bool) \<Rightarrow> 'a list \<Rightarrow> nat option" where
  \<comment> \<open>\<^verbatim>\<open>Array.prototype.findIndex\<close>; \<^verbatim>\<open>None\<close> is the result -1\<close>
  "findIndex P [] = None"
| "findIndex P (x # xs) = (if P x then Some 0 else map_option Suc (findIndex P xs))"

definition update_steps :: "string \<Rightarrow> bool \<Rightarrow> ProgressStep list \<Rightarrow> ProgressStep list" where
  \<comment> \<open>the new array that the updater function of \<^verbatim>\<open>updateProgressStep\<close> returns\<close>
  "update_steps stepId done prev =
     (case findIndex (\<lambda>s. step_id s = stepId) prev of
        None \<Rightarrow> prev
      | Some currentIndex \<Rightarrow>
          let newSteps = prev[currentIndex := (prev ! currentIndex)\<lparr>completed := done, active := False\<rparr>]
          in if done \<and> currentIndex + 1 < length newSteps
             then newSteps[currentIndex + 1 := (newSteps ! (currentIndex + 1))\<lparr>active := True\<rparr>]
             else newSteps)"

definition updateProgressStep :: "string \<Rightarrow> bool \<Rightarrow> app \<Rightarrow> app" where
  "updateProgressStep stepId done a =
     (let prev = progressSteps a in
      case findIndex (\<lambda>s. step_id s = stepId) prev of
        None \<Rightarrow> a\<lparr>progressSteps := update_steps stepId done prev\<rparr>
      | Some currentIndex \<Rightarrow>
          if done \<and> currentIndex + 1 < length prev
          then a\<lparr>progressSteps := update_steps stepId done prev,
                 currentProgressStep := step_id (prev ! (currentIndex + 1))\<rparr>
          else a\<lparr>progressSteps := update_steps stepId done prev\<rparr>)"

definition count_active :: "ProgressStep list \<Rightarrow> nat" where
  "count_active steps = length (filter active steps)"

subsection \<open>The definition effect\<close>

definition createFallbackArt :: "string \<Rightarrow> AsciiArtData" where
  \<comment> \<open>the box-drawing characters of the source are written \<^verbatim>\<open>+\<close>, \<^verbatim>\<open>-\<close> and \<^verbatim>\<open>|\<close>\<close>
  "createFallbackArt topic =
     (let displayableTopic = (if length topic > 20 then take 17 topic @ ''...'' else topic);
          paddedTopic = '' '' @ displayableTopic @ '' '';
          topBorder = ''+'' @ replicate (length paddedTopic) CHR ''-'' @ ''+'';
          middle = ''|'' @ paddedTopic @ ''|'';
          bottomBorder = ''+'' @ replicate (length paddedTopic) CHR ''-'' @ ''+''
      in \<lparr>art = topBorder @ [CHR 0x0A] @ middle @ [CHR 0x0A] @ bottomBorder, text_field = None\<rparr>)"

definition fetchDefinition :: "runtime \<Rightarrow> service \<Rightarrow> world \<Rightarrow> world" where
  \<comment> \<open>the start of \<^verbatim>\<open>fetchDefinition\<close>, up to its first \<^verbatim>\<open>await\<close>; the run becomes the one
      whose cleanup function the effect returns\<close>
  "fetchDefinition rt svc w =
     (let topic = definitionTopic (app w);
          a = (app w)\<lparr>loadingState := Loading_definition, error := None, definitionContent := [],
                       asciiArt := None, generationTime := None\<rparr>;
          e = client_env w;
          (art_result, e1) =
             generateAsciiArt rt (\<lambda>attempt. gen_answer svc (length (requests e) + attempt - 1)) topic e;
          ((yields, thrown), e2) = streamDefinition (stream_answer svc (length (requests e1))) topic e1;
          f = \<lparr>fetch_topic = topic, isCancelled = False, accumulatedContent = [],
               startTime = now w, art_promise = Some art_result, pending_yields = yields,
               stream_end = thrown, finished = False\<rparr>
      in w\<lparr>app := a, client_env := e2, fetches := fetches w @ [f],
            cleanup := Some (length (fetches w))\<rparr>)"

definition run_cleanup :: "world \<Rightarrow> world" where
  \<comment> \<open>\<^verbatim>\<open>() => { isCancelled = true; }\<close> of the previous run of the effect\<close>
  "run_cleanup w =
     (case cleanup w of
        None \<Rightarrow> w
      | Some i \<Rightarrow> w\<lparr>fetches := (fetches w)[i := (fetches w ! i)\<lparr>isCancelled := True\<rparr>],
                    cleanup := None\<rparr>)"

definition run_effect :: "runtime \<Rightarrow> service \<Rightarrow> world \<Rightarrow> world" where
  \<comment> \<open>after a render: the effect runs again when \<^verbatim>\<open>view\<close> or \<^verbatim>\<open>definitionTopic\<close> changed\<close>
  "run_effect rt svc w =
     (let deps = (view (app w), definitionTopic (app w)) in
      if effect_deps w = Some deps then w
      else
        let w1 = (run_cleanup w)\<lparr>effect_deps := Some deps\<rparr>
        in if view (app w) \<noteq> Definition \<or> definitionTopic (app w) = [] then w1
           else fetchDefinition rt svc w1)"

definition art_settled :: "nat \<Rightarrow> world \<Rightarrow> world" where
  \<comment> \<open>the \<^verbatim>\<open>then\<close> or \<^verbatim>\<open>catch\<close> callback of run \<^verbatim>\<open>i\<close> on its art promise\<close>
  "art_settled i w =
     (if length (fetches w) \<le> i then w
      else
        let f = fetches w ! i in
        case art_promise f of
          None \<Rightarrow> w
        | Some r \<Rightarrow>
            let w1 = w\<lparr>fetches := (fetches w)[i := f\<lparr>art_promise := None\<rparr>]\<rparr>
            in if isCancelled f then w1
               else w1\<lparr>app := (app w)\<lparr>asciiArt :=
                          Some (case r of Inr a \<Rightarrow> a | Inl x \<Rightarrow> createFallbackArt (fetch_topic f))\<rparr>\<rparr>)"

definition finish_fetch :: "fetch \<Rightarrow> nat \<Rightarrow> app \<Rightarrow> app" where
  \<comment> \<open>the \<^verbatim>\<open>finally\<close> block\<close>
  "finish_fetch f t a =
     (if isCancelled f then a
      else a\<lparr>generationTime := Some (t - startTime f), loadingState := Idle\<rparr>)"

definition next_chunk :: "nat \<Rightarrow> world \<Rightarrow> world" where
  \<comment> \<open>run \<^verbatim>\<open>i\<close> resumes in its \<^verbatim>\<open>for await\<close> loop with the generator's next result\<close>
  "next_chunk i w =
     (if length (fetches w) \<le> i then w
      else
        let f = fetches w ! i in
        if finished f then w
        else
          (case pending_yields f of
             chunk # rest \<Rightarrow>
               if isCancelled f
               then w\<lparr>fetches := (fetches w)[i := f\<lparr>pending_yields := [], finished := True\<rparr>],
                      app := finish_fetch f (now w) (app w)\<rparr>
               else w\<lparr>fetches := (fetches w)[i := f\<lparr>accumulatedContent := accumulatedContent f @ chunk,
                                                      pending_yields := rest\<rparr>],
                      app := (app w)\<lparr>definitionContent := accumulatedContent f @ chunk\<rparr>\<rparr>
           | [] \<Rightarrow>
               w\<lparr>fetches := (fetches w)[i := f\<lparr>finished := True\<rparr>],
                 app := finish_fetch f (now w)
                          (case stream_end f of
                             None \<Rightarrow> app w
                           | Some x \<Rightarrow>
                               if isCancelled f then app w
                               else (app w)\<lparr>error := Some (error_message ''An unknown error occurred'' x)\<rparr>)\<rparr>))"

datatype delivery = Next_chunk nat | Art_settled nat

fun deliver :: "delivery \<Rightarrow> world \<Rightarrow> world" where
  "deliver (Next_chunk i) w = next_chunk i w"
| "deliver (Art_settled i) w = art_settled i w"

definition deliver_all :: "delivery list \<Rightarrow> world \<Rightarrow> world" where
  "deliver_all ds w = fold deliver ds w"

definition clean_word :: "string \<Rightarrow> string" where
  \<comment> \<open>\<^verbatim>\<open>word.trim().replace(/[.,!?;:()"']/g, '')\<close>\<close>
  "clean_word word = filter (\<lambda>c. c \<notin> set ''.,!?;:()\"'' \<and> c \<noteq> CHR 0x27) (trim word)"

definition handleWordClick :: "runtime \<Rightarrow> service \<Rightarrow> string \<Rightarrow> world \<Rightarrow> world" where
  \<comment> \<open>the handler, and the effect that runs after the render it causes\<close>
  "handleWordClick rt svc word w =
     (let cleanedWord = clean_word word in
      if cleanedWord = [] then w
      else run_effect rt svc (w\<lparr>app := (app w)\<lparr>definitionTopic := cleanedWord, view := Definition\<rparr>\<rparr>))"

definition handleBackToAnalyzer :: "runtime \<Rightarrow> service \<Rightarrow> world \<Rightarrow> world" where
  "handleBackToAnalyzer rt svc w =
     run_effect rt svc
       (w\<lparr>app := (app w)\<lparr>view := Analyzer, definitionTopic := [], worksheetData := None,
                           error := None, showProgress := False\<rparr>\<rparr>)"

text \<open>
  Notions used to state what the cancellation flag achieves: the run a delivery is for;
  the chunks that the generator of a run started in a given state will yield; and the
  condition that every run of the effect other than the one whose cleanup function is still
  held has been cancelled, which holds when the components are mounted and is kept by every
  handler.
\<close>

fun target :: "delivery \<Rightarrow> nat" where
  "target (Next_chunk i) = i"
| "target (Art_settled i) = i"

definition definition_chunks :: "runtime \<Rightarrow> service \<Rightarrow> string \<Rightarrow> env \<Rightarrow> string list" where
  "definition_chunks rt svc topic e =
     (let e1 = snd (generateAsciiArt rt
                 (\<lambda>attempt. gen_answer svc (length (requests e) + attempt - 1)) topic e)
      in fst (fst (streamDefinition (stream_answer svc (length (requests e1))) topic e1)))"

definition superseded_cancelled :: "world \<Rightarrow> bool" where
  "superseded_cancelled w \<longleftrightarrow>
     list_all (\<lambda>i. cleanup w = Some i \<or> isCancelled (fetches w ! i)) [0..<length (fetches w)]
     \<and> (case cleanup w of None \<Rightarrow> True | Some i \<Rightarrow> i < length (fetches w))"

definition others_cancelled :: "nat \<Rightarrow> world \<Rightarrow> bool" where
  "others_cancelled k u \<longleftrightarrow>
     k < length (fetches u) \<and> (\<forall>i<length (fetches u). i \<noteq> k \<longrightarrow> isCancelled (fetches u ! i))"

definition same_for :: "nat \<Rightarrow> world \<Rightarrow> world \<Rightarrow> bool" where
  \<comment> \<open>two states agree on what a delivery to run \<^verbatim>\<open>k\<close> reads and writes\<close>
  "same_for k w w' \<longleftrightarrow>
     app w = app w' \<and> now w = now w' \<and> fetches w ! k = fetches w' ! k
     \<and> k < length (fetches w) \<and> k < length (fetches w')"

definition chunk_progress :: "nat \<Rightarrow> string list \<Rightarrow> nat \<Rightarrow> world \<Rightarrow> bool" where
  \<comment> \<open>run \<^verbatim>\<open>k\<close>, whose generator yields \<^verbatim>\<open>ys\<close>, is live and has been resumed \<^verbatim>\<open>n\<close> times\<close>
  "chunk_progress k ys n u \<longleftrightarrow>
     \<not> isCancelled (fetches u ! k)
     \<and> definitionContent (app u) = concat (take n ys)
     \<and> (if n \<le> length ys
         then \<not> finished (fetches u ! k) \<and> accumulatedContent (fetches u ! k) = concat (take n ys)
              \<and> pending_yields (fetches u ! k) = drop n ys
         else finished (fetches u ! k))"

subsection \<open>Timers\<close>

definition setTimeout :: "timer_action \<Rightarrow> nat \<Rightarrow> world \<Rightarrow> world" where
  "setTimeout action delay w = w\<lparr>timers := timers w @ [(now w + delay, action)]\<rparr>"

fun fire :: "runtime \<Rightarrow> service \<Rightarrow> timer_action \<Rightarrow> world \<Rightarrow> world" where
  "fire rt svc (Update_progress stepId) w = w\<lparr>app := updateProgressStep stepId True (app w)\<rparr>"
| "fire rt svc (Reveal_words words) w =
     w\<lparr>app := (app w)\<lparr>analyzedWords := words, showProgress := False\<rparr>\<rparr>"
| "fire rt svc (Reveal_worksheet data) w =
     run_effect rt svc
       (w\<lparr>app := (app w)\<lparr>worksheetData := Some data, view := Worksheet, showProgress := False\<rparr>\<rparr>)"
| "fire rt svc Clear_message w = w\<lparr>manager := (manager w)\<lparr>message := None\<rparr>\<rparr>"

definition advance :: "runtime \<Rightarrow> service \<Rightarrow> nat \<Rightarrow> world \<Rightarrow> world" where
  \<comment> \<open>the clock reaches \<^verbatim>\<open>t\<close>: the timers due by then run, earliest first, those due at the
      same time in the order they were set\<close>
  "advance rt svc t w =
     fold (\<lambda>(due, action). fire rt svc action)
       (sort_key fst (filter (\<lambda>(due, action). due \<le> t) (timers w)))
       (w\<lparr>timers := filter (\<lambda>(due, action). \<not> due \<le> t) (timers w), now := max t (now w)\<rparr>)"

text \<open>The progress updates among some timers, in their order.\<close>

fun progress_ids :: "(nat \<times> timer_action) list \<Rightarrow> string list" where
  "progress_ids [] = []"
| "progress_ids ((due, Update_progress stepId) # ts) = stepId # progress_ids ts"
| "progress_ids (_ # ts) = progress_ids ts"

fun is_progress :: "nat \<times> timer_action \<Rightarrow> bool" where
  "is_progress (due, Update_progress stepId) = True"
| "is_progress _ = False"

definition due_progress :: "nat \<Rightarrow> world \<Rightarrow> string list" where
  \<comment> \<open>the progress updates that run when the clock reaches \<^verbatim>\<open>t\<close>\<close>
  "due_progress t w = progress_ids (sort_key fst (filter (\<lambda>(due, action). due \<le> t) (timers w)))"

subsection \<open>ApiKeyManager\<close>

definition handleApiKeyChange :: "string option \<Rightarrow> world \<Rightarrow> world" where
  "handleApiKeyChange k w =
     (let w1 = w\<lparr>client_env := setApiKey k (client_env w),
                 app := (app w)\<lparr>apiKeyConfigured := (k \<noteq> None \<and> k \<noteq> Some [])\<rparr>\<rparr>
      in if k \<noteq> None \<and> k \<noteq> Some [] then w1\<lparr>app := (app w1)\<lparr>error := None\<rparr>\<rparr> else w1)"

definition set_message :: "message_type \<Rightarrow> string \<Rightarrow> world \<Rightarrow> world" where
  "set_message ty txt w = w\<lparr>manager := (manager w)\<lparr>message := Some (ty, txt)\<rparr>\<rparr>"

definition handleSaveKey :: "world \<Rightarrow> world" where
  "handleSaveKey w =
     (let trimmedKey = trim (apiKey (manager w)) in
      if trimmedKey = [] then set_message Failure ''Please enter a valid API key'' w
      else if \<not> startsWith trimmedKey ''AI'' \<or> length trimmedKey < 20
      then set_message Failure ''Invalid Gemini API key format'' w
      else if \<not> storage_writable (client_env w) then set_message Failure ''Failed to save API key'' w
      else
        setTimeout Clear_message 3000
          (handleApiKeyChange (Some trimmedKey)
             (set_message Success ''API key saved successfully!''
                (w\<lparr>client_env := (client_env w)\<lparr>localStorage :=
                                    AList.update ''gemini_api_key'' trimmedKey (localStorage (client_env w))\<rparr>,
                    manager := (manager w)\<lparr>isKeySet := True, isExpanded := False\<rparr>\<rparr>))))"

definition handleRemoveKey :: "world \<Rightarrow> world" where
  "handleRemoveKey w =
     (if \<not> storage_writable (client_env w) then set_message Failure ''Failed to remove API key'' w
      else
        setTimeout Clear_message 3000
          (handleApiKeyChange None
             (set_message Success ''API key removed successfully!''
                (w\<lparr>client_env := (client_env w)\<lparr>localStorage :=
                                    AList.delete ''gemini_api_key'' (localStorage (client_env w))\<rparr>,
                    manager := (manager w)\<lparr>apiKey := [], isKeySet := False, isExpanded := True,
                                            showKey := False\<rparr>\<rparr>))))"

subsection \<open>The analysis and worksheet handlers\<close>

text \<open>
  A handler that awaits a request is modelled in two parts: the part up to the
  \<^verbatim>\<open>await\<close>, which also gives the value the awaited promise settles with, and the part that
  runs once it has settled. Between the two, timers run.
\<close>

definition handleAnalyze_begin ::
  "runtime \<Rightarrow> service \<Rightarrow> string \<Rightarrow> world \<Rightarrow> world \<times> (exn + string list) option" where
  "handleAnalyze_begin rt svc txt w =
     (if \<not> apiKeyConfigured (app w)
      then (w\<lparr>app := (app w)\<lparr>error := Some ''Please configure your Gemini API key first.''\<rparr>\<rparr>, None)
      else
        let a = (app w)\<lparr>loadingState := Analyzing, error := None, mainText := txt,
                         analyzedWords := [], selectedWords := [],
                         progressSteps := createProgressSteps Analyze_steps,
                         currentProgressStep := ''preprocessing'', showProgress := True\<rparr>;
            w1 = setTimeout (Update_progress ''ranking'') 2500
                   (setTimeout (Update_progress ''analysis'') 1500
                      (setTimeout (Update_progress ''preprocessing'') 500 (w\<lparr>app := a\<rparr>)));
            (result, e) = analyzeTextForVocabulary rt
                            (gen_answer svc (length (requests (client_env w)))) txt (client_env w)
        in (w1\<lparr>client_env := e\<rparr>, Some result))"

definition handleAnalyze_end :: "exn + string list \<Rightarrow> world \<Rightarrow> world" where
  "handleAnalyze_end result w =
     (case result of
        Inr words \<Rightarrow>
          let w1 = setTimeout (Reveal_words words) 500
                     (w\<lparr>app := updateProgressStep ''finalizing'' True (app w)\<rparr>)
          in w1\<lparr>app := (app w1)\<lparr>loadingState := Idle\<rparr>\<rparr>
      | Inl x \<Rightarrow>
          w\<lparr>app := (app w)\<lparr>error := Some (error_message ''Failed to analyze text.'' x),
                             showProgress := False, loadingState := Idle\<rparr>\<rparr>)"

definition handleAnalyze ::
  "runtime \<Rightarrow> service \<Rightarrow> string \<Rightarrow> nat \<Rightarrow> world \<Rightarrow> world" where
  \<comment> \<open>the whole handler, when the awaited promise settles \<^verbatim>\<open>delay\<close> after the click\<close>
  "handleAnalyze rt svc txt delay w =
     (case handleAnalyze_begin rt svc txt w of
        (w1, None) \<Rightarrow> w1
      | (w1, Some result) \<Rightarrow> handleAnalyze_end result (advance rt svc (now w + delay) w1))"

definition SAMPLE_TOPICS :: "string list" where
  "SAMPLE_TOPICS =
     [''Quantum Computing and Future Technology'',
      ''Sustainable Energy and Environmental Science'',
      ''Neuroscience and Cognitive Psychology'',
      ''Blockchain Technology and Cryptocurrency'',
      ''Artificial Intelligence and Machine Learning'',
      ''Space Exploration and Astrophysics'',
      ''Biotechnology and Genetic Engineering'',
      ''Climate Change and Global Warming'',
      ''Philosophy of Mind and Consciousness'',
      ''Economic Theory and Financial Markets'',
      ''Cultural Anthropology and Social Sciences'',
      ''Modern Architecture and Urban Planning'']"

definition handleRandom_begin :: "service \<Rightarrow> nat \<Rightarrow> world \<Rightarrow> world" where
  \<comment> \<open>\<^verbatim>\<open>handleRandom\<close> up to its first \<^verbatim>\<open>await\<close>; \<^verbatim>\<open>r\<close> is the index drawn with
      \<^verbatim>\<open>Math.random\<close>, and the emoji that starts the text is left out. The loop over
      \<^verbatim>\<open>streamDefinition(randomTopic)\<close> has started the generator by then, which has
      resolved the client and, with one, sent its request.\<close>
  "handleRandom_begin svc r w =
     (if \<not> apiKeyConfigured (app w)
      then w\<lparr>app := (app w)\<lparr>error := Some ''Please configure your Gemini API key first.''\<rparr>\<rparr>
      else
        w\<lparr>app := (app w)\<lparr>loadingState := Analyzing, error := None,
                           mainText := '' Generating article about: '' @ SAMPLE_TOPICS ! r @
                             [CHR 0x0A, CHR 0x0A] @
                             ''Please wait while our AI creates educational content...'',
                           analyzedWords := [], selectedWords := []\<rparr>,
          client_env := snd (streamDefinition (stream_answer svc (length (requests (client_env w))))
                               (SAMPLE_TOPICS ! r) (client_env w))\<rparr>)"

definition handleGenerateWorksheet_begin ::
  "runtime \<Rightarrow> service \<Rightarrow> world \<Rightarrow> world \<times> (exn + json) option" where
  "handleGenerateWorksheet_begin rt svc w =
     (if selectedWords (app w) = [] then (w, None)
      else
        let a = (app w)\<lparr>loadingState := Generating_worksheet, error := None,
                         progressSteps := createProgressSteps Worksheet_steps,
                         currentProgressStep := ''setup'', showProgress := True\<rparr>;
            w1 = setTimeout (Update_progress ''questions'') 4000
                   (setTimeout (Update_progress ''definitions'') 2000
                      (setTimeout (Update_progress ''setup'') 800 (w\<lparr>app := a\<rparr>)));
            (result, e) = generateWorksheetData rt
                            (gen_answer svc (length (requests (client_env w))))
                            (mainText (app w)) (selectedWords (app w)) (client_env w)
        in (w1\<lparr>client_env := e\<rparr>, Some result))"

definition handleGenerateWorksheet_end :: "exn + json \<Rightarrow> world \<Rightarrow> world" where
  "handleGenerateWorksheet_end result w =
     (case result of
        Inr data \<Rightarrow>
          let w1 = setTimeout (Reveal_worksheet data) 800
                     (w\<lparr>app := updateProgressStep ''formatting'' True (app w)\<rparr>)
          in w1\<lparr>app := (app w1)\<lparr>loadingState := Idle\<rparr>\<rparr>
      | Inl x \<Rightarrow>
          w\<lparr>app := (app w)\<lparr>error := Some (error_message ''Failed to generate worksheet.'' x),
                             showProgress := False, loadingState := Idle\<rparr>\<rparr>)"

definition handleGenerateWorksheet :: "runtime \<Rightarrow> service \<Rightarrow> nat \<Rightarrow> world \<Rightarrow> world" where
  \<comment> \<open>the whole handler, when the awaited promise settles \<^verbatim>\<open>delay\<close> after the click\<close>
  "handleGenerateWorksheet rt svc delay w =
     (case handleGenerateWorksheet_begin rt svc w of
        (w1, None) \<Rightarrow> w1
      | (w1, Some result) \<Rightarrow> handleGenerateWorksheet_end result (advance rt svc (now w + delay) w1))"

definition handleClear :: "world \<Rightarrow> world" where
  "handleClear w =
     w\<lparr>app := (app w)\<lparr>mainText := [], analyzedWords := [], selectedWords := [], error := None\<rparr>\<rparr>"

section \<open>Highlighting of the analysed text (App, \<^verbatim>\<open>AnalyzedContent\<close>)\<close>

text \<open>
  The component builds the regular expression \<^verbatim>\<open>\b(w1|w2|...)\b\<close> with the flags
  \<^verbatim>\<open>gi\<close> from the highlight words, each escaped so that it stands for itself, splits the
  text with it, and renders as a button every part that equals a highlight word when both
  are put in lower case. The functions below are what the regular expression engine and
  \<^verbatim>\<open>String.prototype.split\<close> do for an expression of that shape.

  What the component does depends on code units beyond U+00FF, so its strings are taken
  with all their code units: a string is a list of 16-bit code units.
\<close>

type_synonym code_unit = "16 word"

type_synonym utf16 = "code_unit list"


text \<open>
  The case mappings of the Unicode Character Database come with the engine, not with the
  repository: they are a parameter of the model. \<^verbatim>\<open>unicode_upper\<close> is the upper case of the
  string made of one code unit, and \<^verbatim>\<open>unicode_lower\<close> the lower case of a whole string,
  both as code units. The first is only asked about a code unit outside ASCII and the
  second about a string that holds one: what the mappings do to ASCII alone is written
  out.
\<close>

record unicode =
  unicode_upper :: "code_unit \<Rightarrow> utf16"
  unicode_lower :: "utf16 \<Rightarrow> utf16"

definition is_ascii :: "code_unit \<Rightarrow> bool" where
  "is_ascii c \<longleftrightarrow> c < 128"

definition is_word_char :: "code_unit \<Rightarrow> bool" where
  \<comment> \<open>the class \<^verbatim>\<open>\w\<close> of an expression without the flag \<^verbatim>\<open>u\<close>: a letter of \<^verbatim>\<open>A-Z\<close> or
      \<^verbatim>\<open>a-z\<close>, a digit, or the underscore\<close>
  "is_word_char c \<longleftrightarrow>
     (48 \<le> c \<and> c \<le> 57) \<or> (65 \<le> c \<and> c \<le> 90) \<or> c = 95 \<or> (97 \<le> c \<and> c \<le> 122)"

definition upper_ascii :: "code_unit \<Rightarrow> code_unit" where
  "upper_ascii c = (if 97 \<le> c \<and> c \<le> 122 then c - 32 else c)"


definition canonicalize :: "unicode \<Rightarrow> code_unit \<Rightarrow> code_unit" where
  \<comment> \<open>how the flag \<^verbatim>\<open>i\<close> compares code units when the flag \<^verbatim>\<open>u\<close> is not set: by their
      upper case, when that is one code unit; and a code unit outside ASCII is never
      compared by an upper case inside ASCII\<close>
  "canonicalize u ch =
     (if is_ascii ch then upper_ascii ch
      else (case unicode_upper u ch of
              [cu] \<Rightarrow> if is_ascii cu then ch else cu
            | _ \<Rightarrow> ch))"


definition substring :: "'a list \<Rightarrow> nat \<Rightarrow> nat \<Rightarrow> 'a list" where
  \<comment> \<open>the code units from index \<^verbatim>\<open>i\<close> up to, not including, index \<^verbatim>\<open>j\<close>\<close>
  "substring s i j = take (j - i) (drop i s)"

definition word_boundary :: "utf16 \<Rightarrow> nat \<Rightarrow> bool" where
  \<comment> \<open>the assertion \<^verbatim>\<open>\b\<close> at index \<^verbatim>\<open>q\<close>: a word character on exactly one side\<close>
  "word_boundary s q \<longleftrightarrow>
     (0 < q \<and> q \<le> length s \<and> is_word_char (s ! (q - 1))) \<noteq> (q < length s \<and> is_word_char (s ! q))"

definition matches_at :: "unicode \<Rightarrow> utf16 \<Rightarrow> utf16 \<Rightarrow> nat \<Rightarrow> bool" where
  \<comment> \<open>the escaped word \<^verbatim>\<open>w\<close> matches at index \<^verbatim>\<open>q\<close>, ignoring case\<close>
  "matches_at u w s q \<longleftrightarrow>
     q + length w \<le> length s
     \<and> map (canonicalize u) (substring s q (q + length w)) = map (canonicalize u) w"

definition match_at :: "unicode \<Rightarrow> utf16 list \<Rightarrow> utf16 \<Rightarrow> nat \<Rightarrow> nat option" where
  \<comment> \<open>the end of the match of the whole expression that starts at index \<^verbatim>\<open>q\<close>: the first
      alternative that matches there and is followed by a boundary\<close>
  "match_at u ws s q =
     (if word_boundary s q
      then (case find (\<lambda>w. matches_at u w s q \<and> word_boundary s (q + length w)) ws of
              None \<Rightarrow> None
            | Some w \<Rightarrow> Some (q + length w))
      else None)"

text \<open>
  The loop of \<^verbatim>\<open>split\<close>: \<^verbatim>\<open>p\<close> is the end of the last match used, \<^verbatim>\<open>q\<close> the index at
  which a match is tried. A match that ends at \<^verbatim>\<open>p\<close> is skipped; any other one closes the
  part before it and is itself added, as the value of the capturing group.
\<close>

function split_loop :: "unicode \<Rightarrow> utf16 list \<Rightarrow> utf16 \<Rightarrow> nat \<Rightarrow> nat \<Rightarrow> utf16 list" where
  "split_loop u ws s p q =
     (if q < length s then
        (case match_at u ws s q of
           None \<Rightarrow> split_loop u ws s p (q + 1)
         | Some e \<Rightarrow>
             if e = p then split_loop u ws s p (q + 1)
             else substring s p q # substring s q e # split_loop u ws s e e)
      else [substring s p (length s)])"
  by pat_completeness auto
termination
proof -
  have bounds: "q \<le> e \<and> e \<le> length s" if "match_at u ws s q = Some e" for u ws s q e
    using that
    by (auto simp: match_at_def matches_at_def find_Some_iff split: if_splits option.splits)
  show ?thesis
    by (relation "measure (\<lambda>(u, ws, s, p, q). 2 * (length s - q) + (if p = q then 0 else 1))")
       (auto dest!: bounds)
qed

declare split_loop.simps [simp del]

definition split :: "unicode \<Rightarrow> utf16 list \<Rightarrow> utf16 \<Rightarrow> utf16 list" where
  \<comment> \<open>\<^verbatim>\<open>text.split(regex)\<close>\<close>
  "split u ws s =
     (if s = [] then (if match_at u ws s 0 \<noteq> None then [] else [s])
      else split_loop u ws s 0 0)"














section \<open>Example values\<close>

text \<open>
  Concrete values on which the theorems below are run: a runtime whose \<^verbatim>\<open>JSON.parse\<close>
  knows two documents, the state of a browser without any key, the components with the
  initial values of their state, and the application once a key has been handed to it.
\<close>

definition example_runtime :: runtime where
  "example_runtime =
     \<lparr>JSON_parse = (\<lambda>s.
         if s = ''{\"summary\":\"s\"}'' then Inr (JObj [(''summary'', JStr ''s'')])
         else if s = ''[\"lucid\"]'' then Inr (JArr [JStr ''lucid''])
         else Inl (Error ''Unexpected token'')),
       type_error = (\<lambda>k. Error (''Cannot read properties of null (reading '' @ k @ '')''))\<rparr>"

definition example_env :: env where
  "example_env =
     \<lparr>ai = None, window_defined = True, localStorage = [], storage_writable = True,
       vite_key = None, node_key = None, requests = []\<rparr>"

definition WELCOME_TEXT :: string where
  \<comment> \<open>the first line of the welcome text, without its emoji\<close>
  "WELCOME_TEXT = ''Welcome to the AI-Powered Vocabulary Builder!''"

definition initial_world :: "env \<Rightarrow> world" where
  "initial_world e =
     \<lparr>client_env = e,
       app = \<lparr>view = Analyzer, loadingState = Idle, mainText = WELCOME_TEXT, analyzedWords = [],
                selectedWords = [], error = None, apiKeyConfigured = False, showProgress = False,
                progressSteps = [], currentProgressStep = [], definitionTopic = [],
                definitionContent = [], asciiArt = None, generationTime = None,
                worksheetData = None\<rparr>,
       manager = \<lparr>apiKey = [], isKeySet = False, isExpanded = False, showKey = False,
                    message = None\<rparr>,
       now = 0, timers = [], fetches = [], cleanup = None, effect_deps = None\<rparr>"

definition ready_world :: world where
  "ready_world = handleApiKeyChange (Some ''AIzaSyExampleKey0123456789'') (initial_world example_env)"

definition failing_service :: service where
  "failing_service =
     \<lparr>gen_answer = (\<lambda>n. Rejected (Error ''Failed to fetch'')),
       stream_answer = (\<lambda>n. Stream_rejected (Error ''Failed to fetch''))\<rparr>"

definition incomplete_service :: service where
  "incomplete_service =
     \<lparr>gen_answer = (\<lambda>n. Response (Some ''{\"summary\":\"s\"}'')),
       stream_answer = (\<lambda>n. Stream [Some ''A '', None, Some ''cat.''] (Some (Error ''reset'')))\<rparr>"

definition selected_world :: world where
  "selected_world =
     ready_world\<lparr>app := (app ready_world)\<lparr>mainText := ''A lucid text.'',
                     analyzedWords := [''lucid''], selectedWords := [''lucid'']\<rparr>\<rparr>"

definition streaming_service :: service where
  "streaming_service =
     \<lparr>gen_answer = (\<lambda>n. Rejected (Error ''Failed to fetch'')),
       stream_answer = (\<lambda>n. if n = 1 then Stream [Some ''Alpha is '', Some ''first.''] None
                             else Stream [Some ''Beta is '', Some ''second.''] None)\<rparr>"

definition alpha_streaming :: world where
  \<comment> \<open>the definition of \<^verbatim>\<open>alpha\<close> has been asked for and its first chunk has arrived\<close>
  "alpha_streaming =
     deliver (Next_chunk 0) (handleWordClick example_runtime streaming_service ''alpha'' ready_world)"






section \<open>Properties of the selection toggle\<close>

lemma handleSelectionChange_absent:
  "word \<notin> set prev \<Longrightarrow> handleSelectionChange word prev = prev @ [word]"
  by (simp add: handleSelectionChange_def)

lemma handleSelectionChange_present:
  "word \<in> set prev \<Longrightarrow> handleSelectionChange word prev = filter (\<lambda>w. w \<noteq> word) prev"
  by (simp add: handleSelectionChange_def)

lemma handleSelectionChange_twice_absent:
  "word \<notin> set prev \<Longrightarrow> handleSelectionChange word (handleSelectionChange word prev) = prev"
  by (auto simp add: handleSelectionChange_def filter_id_conv)

lemma handleSelectionChange_twice_present:
  "word \<in> set prev \<Longrightarrow>
   handleSelectionChange word (handleSelectionChange word prev) =
     filter (\<lambda>w. w \<noteq> word) prev @ [word]"
  by (simp add: handleSelectionChange_def)

lemma handleSelectionChange_distinct:
  "distinct prev \<Longrightarrow> distinct (handleSelectionChange word prev)"
  by (simp add: handleSelectionChange_def)

text \<open>
  Claim C8. A toggle flips the membership of the word, and toggling the same word twice in
  succession gives back the original selection set. The order of the selection is the
  insertion order: a toggle never reorders the other words (the selection restricted to
  them is the same list as before), and a word that is switched on is put behind all words
  selected earlier. So two toggles of a word that was not selected give back the very same
  list, and two toggles of a selected word leave it selected, now as the latest one.
\<close>

theorem selection_toggle_involutive:
  "set (handleSelectionChange word (handleSelectionChange word prev)) = set prev
   \<and> (word \<in> set (handleSelectionChange word prev)) = (word \<notin> set prev)
   \<and> filter (\<lambda>w. w \<noteq> word) (handleSelectionChange word prev) = filter (\<lambda>w. w \<noteq> word) prev
   \<and> (word \<notin> set prev \<longrightarrow>
        handleSelectionChange word prev = prev @ [word]
        \<and> handleSelectionChange word (handleSelectionChange word prev) = prev)
   \<and> (word \<in> set prev \<longrightarrow>
        handleSelectionChange word (handleSelectionChange word prev) =
          filter (\<lambda>w. w \<noteq> word) prev @ [word])"
proof (cases "word \<in> set prev")
  case True
  then show ?thesis
    by (auto simp add: handleSelectionChange_def)
next
  case False
  then show ?thesis
    by (auto simp add: handleSelectionChange_def filter_id_conv)
qed

theorem selection_toggle_involutive_witness:
  "''delta'' \<notin> set [''alpha'', ''beta'', ''gamma'']
   \<and> handleSelectionChange ''delta'' [''alpha'', ''beta'', ''gamma''] =
        [''alpha'', ''beta'', ''gamma'', ''delta'']
   \<and> handleSelectionChange ''delta''
        (handleSelectionChange ''delta'' [''alpha'', ''beta'', ''gamma'']) =
        [''alpha'', ''beta'', ''gamma'']
   \<and> ''beta'' \<in> set [''alpha'', ''beta'', ''gamma'']
   \<and> handleSelectionChange ''beta''
        (handleSelectionChange ''beta'' [''alpha'', ''beta'', ''gamma'']) =
        [''alpha'', ''gamma'', ''beta'']"
proof -
  have a: "''delta'' \<notin> set [''alpha'', ''beta'', ''gamma'']"
    and b: "''beta'' \<in> set [''alpha'', ''beta'', ''gamma'']"
    by simp_all
  note d = selection_toggle_involutive[of "''delta''" "[''alpha'', ''beta'', ''gamma'']"]
  note e = selection_toggle_involutive[of "''beta''" "[''alpha'', ''beta'', ''gamma'']"]
  from d a have d1: "handleSelectionChange ''delta'' [''alpha'', ''beta'', ''gamma''] =
      [''alpha'', ''beta'', ''gamma'', ''delta'']"
    by simp
  from d a have d2: "handleSelectionChange ''delta''
      (handleSelectionChange ''delta'' [''alpha'', ''beta'', ''gamma'']) =
      [''alpha'', ''beta'', ''gamma'']"
    by blast
  from e b have e2: "handleSelectionChange ''beta''
      (handleSelectionChange ''beta'' [''alpha'', ''beta'', ''gamma'']) =
      filter (\<lambda>w. w \<noteq> ''beta'') [''alpha'', ''beta'', ''gamma''] @ [''beta'']"
    by blast
  then have e3: "handleSelectionChange ''beta''
      (handleSelectionChange ''beta'' [''alpha'', ''beta'', ''gamma'']) =
      [''alpha'', ''gamma'', ''beta'']"
    by simp
  show ?thesis
    by (intro conjI a b d1 d2 e3)
qed

section \<open>Properties of the generation client\<close>

lemma ensureAiClient_requests: "ensureAiClient e = Inr (c, e1) \<Longrightarrow> requests e1 = requests e"
  by (auto simp: ensureAiClient_def split: option.splits if_splits)

lemma ensureAiClient_Inl:
  "ensureAiClient e = Inl x \<Longrightarrow>
   x = Error ''No API key configured. Please set up your Gemini API key.''"
  by (auto simp: ensureAiClient_def split: option.splits if_splits)

lemma ensureAiClient_no_key:
  "ai e = None \<Longrightarrow> getCurrentApiKey e = None \<Longrightarrow>
   ensureAiClient e = Inl (Error ''No API key configured. Please set up your Gemini API key.'')"
  by (simp add: ensureAiClient_def)

lemma ensureAiClient_client: "ai e = Some c \<Longrightarrow> ensureAiClient e = Inr (c, e)"
  by (simp add: ensureAiClient_def)

lemma trim_simps:
  "trim [] = []" "trim ''   '' = []" "trim ''short'' = ''short''"
  "trim ''A lucid text.'' = ''A lucid text.''"
  by (simp_all add: trim_def trimEnd_def trimStart_def is_whitespace_def)

lemma client_env_ready_world:
  "client_env ready_world = example_env\<lparr>ai := Some (GoogleGenAI ''AIzaSyExampleKey0123456789'')\<rparr>"
  by (simp add: ready_world_def handleApiKeyChange_def initial_world_def setApiKey_def
      trim_def trimEnd_def trimStart_def is_whitespace_def)

lemma ensureAiClient_ready_world:
  "ensureAiClient (client_env ready_world) =
     Inr (GoogleGenAI ''AIzaSyExampleKey0123456789'', client_env ready_world)"
  by (simp add: client_env_ready_world ensureAiClient_def)

lemma example_env_no_key: "ai example_env = None" "getCurrentApiKey example_env = None"
  by (simp_all add: example_env_def getCurrentApiKey_def getItem_def nonblank_def)

subsection \<open>\<^verbatim>\<open>generateAsciiArt\<close>: the number of attempts\<close>

lemma show_nat_1: "show_nat (Suc 0) = ''1''"
  by (simp add: show_nat.simps[of "Suc 0"] digit_char_def)

lemma attempts_once:
  "attempts rt resp topic (Suc 0) (Suc 0) e =
     ((case ascii_art_of_response rt (resp (Suc 0)) of
         Inr result \<Rightarrow> Inr result
       | Inl x \<Rightarrow> Inl (Error ''Could not generate ASCII art after 1 attempts.'')),
      send (Generate_content (Ascii_art_prompt topic)) e)"
  by (subst attempts.simps) (simp add: show_nat_1 split: sum.splits)

text \<open>
  The loop itself, for any bound: when every attempt fails it sends one request per
  attempt from the current one up to the bound, and then throws.
\<close>

lemma attempts_all_fail:
  "attempt \<le> bound \<Longrightarrow>
   (\<forall>n. attempt \<le> n \<and> n \<le> bound \<longrightarrow> (\<exists>x. ascii_art_of_response rt (resp n) = Inl x)) \<Longrightarrow>
   attempts rt resp topic bound attempt e =
     (Inl (Error (''Could not generate ASCII art after '' @ show_nat bound @ '' attempts.'')),
      e\<lparr>requests := requests e @
           replicate (Suc bound - attempt) (Generate_content (Ascii_art_prompt topic))\<rparr>)"
proof (induction rt resp topic bound attempt e rule: attempts.induct)
  case (1 rt resp topic bound attempt e)
  from "1.prems" obtain x where x: "ascii_art_of_response rt (resp attempt) = Inl x"
    by auto
  show ?case
  proof (cases "attempt = bound")
    case True
    with x "1.prems" show ?thesis
      by (subst attempts.simps) (simp add: send_def)
  next
    case False
    with "1.prems" have lt: "attempt < bound" by simp
    have "attempts rt resp topic bound (attempt + 1)
            (send (Generate_content (Ascii_art_prompt topic)) e) =
          (Inl (Error (''Could not generate ASCII art after '' @ show_nat bound @ '' attempts.'')),
           (send (Generate_content (Ascii_art_prompt topic)) e)
             \<lparr>requests := requests (send (Generate_content (Ascii_art_prompt topic)) e) @
                replicate (Suc bound - (attempt + 1)) (Generate_content (Ascii_art_prompt topic))\<rparr>)"
      using "1.IH"[OF _ x False] "1.prems" lt by auto
    then show ?thesis
      using x False lt
      by (subst attempts.simps) (simp add: send_def Suc_diff_le)
  qed
qed

text \<open>
  Claim C1, as amended. \<^verbatim>\<open>generateAsciiArt\<close> makes exactly one attempt: the constant
  \<^verbatim>\<open>maxRetries = 1\<close> bounds the attempts, not the retries after the first. Once a client
  is available it sends exactly one request whatever the service answers, returns the art
  when that attempt passes validation, and otherwise throws
  \<^verbatim>\<open>Could not generate ASCII art after 1 attempts.\<close> at once, with no second attempt.
\<close>

theorem generateAsciiArt_single_attempt:
  "ensureAiClient e = Inr (c, e1) \<Longrightarrow>
   requests (snd (generateAsciiArt rt resp topic e)) =
     requests e @ [Generate_content (Ascii_art_prompt topic)]
   \<and> fst (generateAsciiArt rt resp topic e) =
       (case ascii_art_of_response rt (resp 1) of
          Inr result \<Rightarrow> Inr result
        | Inl x \<Rightarrow> Inl (Error ''Could not generate ASCII art after 1 attempts.''))"
  by (simp add: generateAsciiArt_def maxRetries_def attempts_once send_def ensureAiClient_requests
      split: sum.splits)

theorem generateAsciiArt_single_attempt_witness:
  "ensureAiClient (client_env ready_world) =
     Inr (GoogleGenAI ''AIzaSyExampleKey0123456789'', client_env ready_world)
   \<and> requests (snd (generateAsciiArt example_runtime (\<lambda>n. Response (Some ''not json'')) ''cat''
        (client_env ready_world))) = [Generate_content (Ascii_art_prompt ''cat'')]"
  using ensureAiClient_ready_world
    generateAsciiArt_single_attempt[OF ensureAiClient_ready_world, of example_runtime
      "\<lambda>n. Response (Some ''not json'')" "''cat''"]
  by (simp add: client_env_ready_world example_env_def)

text \<open>
  The claim as stated fails: with malformed JSON as the answer to every request, the
  operation throws after one request, not after two.
\<close>

theorem generateAsciiArt_second_attempt_counterexample:
  "generateAsciiArt example_runtime (\<lambda>n. Response (Some ''not json'')) ''cat'' (client_env ready_world) =
     (Inl (Error ''Could not generate ASCII art after 1 attempts.''),
      (client_env ready_world)\<lparr>requests := [Generate_content (Ascii_art_prompt ''cat'')]\<rparr>)
   \<and> length (requests (snd (generateAsciiArt example_runtime (\<lambda>n. Response (Some ''not json''))
        ''cat'' (client_env ready_world)))) \<noteq> 2"
  by (simp add: generateAsciiArt_def maxRetries_def attempts_once send_def client_env_ready_world
      ensureAiClient_def example_env_def ascii_art_of_response_def strip_code_fence_def
      startsWith_def endsWith_def trim_def trimEnd_def trimStart_def is_whitespace_def)

subsection \<open>\<^verbatim>\<open>streamDefinition\<close>: the two kinds of failure\<close>

text \<open>
  Claim C3. When no client exists and no key can be resolved, \<^verbatim>\<open>streamDefinition\<close> yields
  exactly one chunk, the readable message, and returns normally, having sent nothing. When
  a client is available and the service's stream fails after some chunks, the generator
  has yielded the texts of those chunks unchanged and in order, yields one more chunk that
  describes the failure, and then throws.
\<close>

theorem streamDefinition_failure_modes:
  "(ai e = None \<and> getCurrentApiKey e = None \<longrightarrow>
      streamDefinition resp topic e =
        (([''Error: No API key configured. Please set up your Gemini API key.''], None), e))
   \<and> (ensureAiClient e = Inr (c, e1) \<longrightarrow>
      streamDefinition (Stream chunks (Some x)) topic e =
        ((chunk_texts chunks @ [stream_failure_chunk topic x],
          Some (Error (error_message ''An unknown error occurred.'' x))),
         send (Generate_content_stream (Definition_prompt topic)) e1))"
  by (simp add: streamDefinition_def ensureAiClient_no_key)

theorem streamDefinition_failure_modes_witness:
  "ai example_env = None \<and> getCurrentApiKey example_env = None
   \<and> streamDefinition (Stream [Some ''A '', Some ''cat.''] None) ''cat'' example_env =
        (([''Error: No API key configured. Please set up your Gemini API key.''], None), example_env)
   \<and> ensureAiClient (client_env ready_world) =
        Inr (GoogleGenAI ''AIzaSyExampleKey0123456789'', client_env ready_world)
   \<and> streamDefinition (Stream [Some ''A '', None, Some ''cat.''] (Some (Error ''reset''))) ''cat''
        (client_env ready_world) =
        (([''A '', ''cat.'', ''Error: Could not generate content for \"cat\". reset''],
          Some (Error ''reset'')),
         (client_env ready_world)\<lparr>requests := [Generate_content_stream (Definition_prompt ''cat'')]\<rparr>)"
  using example_env_no_key ensureAiClient_ready_world
    streamDefinition_failure_modes[where e = example_env
      and resp = "Stream [Some ''A '', Some ''cat.''] None" and topic = "''cat''"]
    streamDefinition_failure_modes[where e = "client_env ready_world"
      and c = "GoogleGenAI ''AIzaSyExampleKey0123456789''" and ?e1.0 = "client_env ready_world"
      and chunks = "[Some ''A '', None, Some ''cat.'']" and x = "Error ''reset''"
      and topic = "''cat''"]
  by (simp add: chunk_texts_def stream_failure_chunk_def send_def client_env_ready_world example_env_def)

subsection \<open>\<^verbatim>\<open>analyzeTextForVocabulary\<close> on a blank text\<close>

text \<open>
  Claim C6, as amended. On a text that is empty or only white space,
  \<^verbatim>\<open>analyzeTextForVocabulary\<close> sends no request. It returns the empty list when a client
  exists or a key can be resolved; when neither is the case it throws the missing-key
  error instead, since the client is resolved before the text is looked at.
\<close>

theorem analyzeTextForVocabulary_blank_text:
  "trim txt = [] \<Longrightarrow>
   requests (snd (analyzeTextForVocabulary rt resp txt e)) = requests e
   \<and> (ensureAiClient e = Inr (c, e1) \<longrightarrow> analyzeTextForVocabulary rt resp txt e = (Inr [], e1))
   \<and> (ai e = None \<and> getCurrentApiKey e = None \<longrightarrow>
        analyzeTextForVocabulary rt resp txt e =
          (Inl (Error ''No API key configured. Please set up your Gemini API key.''), e))"
  by (auto simp: analyzeTextForVocabulary_def ensureAiClient_requests ensureAiClient_no_key
      split: sum.splits)

theorem analyzeTextForVocabulary_blank_text_witness:
  "trim ''   '' = []
   \<and> ensureAiClient (client_env ready_world) =
        Inr (GoogleGenAI ''AIzaSyExampleKey0123456789'', client_env ready_world)
   \<and> analyzeTextForVocabulary example_runtime (Response (Some ''[\"lucid\"]'')) ''   ''
        (client_env ready_world) = (Inr [], client_env ready_world)
   \<and> requests (snd (analyzeTextForVocabulary example_runtime (Response (Some ''[\"lucid\"]'')) ''   ''
        (client_env ready_world))) = []"
  using trim_simps(2) ensureAiClient_ready_world
    analyzeTextForVocabulary_blank_text[OF trim_simps(2), of example_runtime
      "Response (Some ''[\"lucid\"]'')" "client_env ready_world"
      "GoogleGenAI ''AIzaSyExampleKey0123456789''" "client_env ready_world"]
  by (simp add: client_env_ready_world example_env_def)

text \<open>
  The claim as stated fails: in a browser without any key, a blank text is answered by an
  error, not by the empty list.
\<close>

theorem analyzeTextForVocabulary_blank_text_counterexample:
  "analyzeTextForVocabulary example_runtime (Response (Some ''[\"lucid\"]'')) ''   '' example_env =
     (Inl (Error ''No API key configured. Please set up your Gemini API key.''), example_env)
   \<and> fst (analyzeTextForVocabulary example_runtime (Response (Some ''[\"lucid\"]'')) ''   ''
        example_env) \<noteq> Inr []"
  by (simp add: analyzeTextForVocabulary_def ensureAiClient_no_key example_env_no_key)

subsection \<open>\<^verbatim>\<open>generateWorksheetData\<close>: invalid input and incomplete responses\<close>

text \<open>
  Claim C10. When a client is available, a call of \<^verbatim>\<open>generateWorksheetData\<close> whose text is
  empty or only white space, or whose list of words is empty, throws
  \<^verbatim>\<open>Invalid input for worksheet generation.\<close> and has sent no request.
\<close>

theorem generateWorksheetData_invalid_input:
  "ensureAiClient e = Inr (c, e1) \<Longrightarrow> trim txt = [] \<or> words = [] \<Longrightarrow>
   generateWorksheetData rt resp txt words e =
     (Inl (Error ''Invalid input for worksheet generation.''), e1)
   \<and> requests e1 = requests e"
  by (auto simp: generateWorksheetData_def ensureAiClient_requests)

theorem generateWorksheetData_invalid_input_witness:
  "ensureAiClient (client_env ready_world) =
     Inr (GoogleGenAI ''AIzaSyExampleKey0123456789'', client_env ready_world)
   \<and> generateWorksheetData example_runtime (Response (Some ''{\"summary\":\"s\"}'')) ''A lucid text.'' []
        (client_env ready_world) =
        (Inl (Error ''Invalid input for worksheet generation.''), client_env ready_world)
   \<and> requests (client_env ready_world) = []"
  using ensureAiClient_ready_world
    generateWorksheetData_invalid_input[OF ensureAiClient_ready_world, of "''A lucid text.''" "[]"
      example_runtime "Response (Some ''{\"summary\":\"s\"}'')"]
  by (simp add: client_env_ready_world example_env_def)

lemma worksheet_incomplete:
  "parse_response_text rt t = Inr (JObj kvs) \<Longrightarrow>
   map_of kvs ''title'' = None \<or> map_of kvs ''wordDetails'' = Some (JArr []) \<Longrightarrow>
   worksheet_of_response rt (Response t) = Inl (Error ''API returned incomplete worksheet data.'')"
  by (auto simp: worksheet_of_response_def get_prop_def)

section \<open>Properties of the handlers\<close>

subsection \<open>Saving a key\<close>

text \<open>
  Claim C9. A key that is empty after trimming, does not start with \<^verbatim>\<open>AI\<close> or is shorter
  than 20 characters is rejected: \<^verbatim>\<open>handleSaveKey\<close> changes nothing but the message shown
  to the user, which becomes an error message. In particular the stored keys are what
  they were.
\<close>

theorem handleSaveKey_rejects_malformed_key:
  "trim (apiKey (manager w)) = [] \<or> \<not> startsWith (trim (apiKey (manager w))) ''AI''
     \<or> length (trim (apiKey (manager w))) < 20 \<Longrightarrow>
   handleSaveKey w =
     w\<lparr>manager := (manager w)\<lparr>message :=
         Some (Failure, if trim (apiKey (manager w)) = [] then ''Please enter a valid API key''
                        else ''Invalid Gemini API key format'')\<rparr>\<rparr>
   \<and> localStorage (client_env (handleSaveKey w)) = localStorage (client_env w)"
  by (auto simp: handleSaveKey_def set_message_def Let_def)

theorem handleSaveKey_rejects_malformed_key_witness:
  "length (trim ''short'') < 20
   \<and> message (manager (handleSaveKey
        ((initial_world example_env)\<lparr>manager := (manager (initial_world example_env))\<lparr>apiKey := ''short''\<rparr>\<rparr>)))
       = Some (Failure, ''Invalid Gemini API key format'')
   \<and> localStorage (client_env (handleSaveKey
        ((initial_world example_env)\<lparr>manager := (manager (initial_world example_env))\<lparr>apiKey := ''short''\<rparr>\<rparr>)))
       = []"
  using handleSaveKey_rejects_malformed_key[of
      "(initial_world example_env)\<lparr>manager := (manager (initial_world example_env))\<lparr>apiKey := ''short''\<rparr>\<rparr>"]
  by (simp add: trim_simps initial_world_def example_env_def)

subsection \<open>An incomplete worksheet\<close>

lemma app_run_cleanup [simp]: "app (run_cleanup w) = app w"
  by (simp add: run_cleanup_def split: option.splits)

lemma run_effect_elsewhere:
  "view (app w) \<noteq> Definition \<Longrightarrow> app (run_effect rt svc w) = app w"
  by (simp add: run_effect_def Let_def)

lemma showProgress_updateProgressStep [simp]:
  "showProgress (updateProgressStep s d a) = showProgress a"
  by (simp add: updateProgressStep_def Let_def split: option.splits)

lemma showProgress_fire:
  "\<not> showProgress (app w) \<Longrightarrow> \<not> showProgress (app (fire rt svc action w))"
  by (cases action) (simp_all add: run_effect_elsewhere)

lemma showProgress_advance:
  assumes "\<not> showProgress (app w)"
  shows "\<not> showProgress (app (advance rt svc t w))"
proof -
  have run: "\<not> showProgress (app u) \<Longrightarrow>
      \<not> showProgress (app (fold (\<lambda>(due, action). fire rt svc action) ts u))" for ts u
  proof (induction ts arbitrary: u)
    case Nil
    then show ?case by simp
  next
    case (Cons a ts)
    obtain due action where a: "a = (due, action)"
      by (cases a)
    from Cons.prems have "\<not> showProgress (app (fire rt svc action u))"
      by (rule showProgress_fire)
    then have "\<not> showProgress (app (fold (\<lambda>(due, action). fire rt svc action) ts
        (fire rt svc action u)))"
      by (rule Cons.IH)
    with a show ?case by simp
  qed
  have start: "\<not> showProgress (app (w\<lparr>timers := ts, now := n\<rparr>))" for ts n
    using assms by simp
  show ?thesis
    unfolding advance_def by (rule run) (rule start)
qed

text \<open>
  Claim C5. Let words be selected, the text not blank and a client available, and let the
  service answer the worksheet request with a JSON object that has no \<^verbatim>\<open>title\<close>, or
  whose \<^verbatim>\<open>wordDetails\<close> is the empty array. Then \<^verbatim>\<open>generateWorksheetData\<close> throws the error
  of an incomplete response, and \<^verbatim>\<open>handleGenerateWorksheet\<close> catches it: whenever the answer
  arrives, the handler leaves that one message in \<^verbatim>\<open>error\<close>, the loading state idle and
  the progress display switched off; and no timer that runs later switches it on again.
\<close>

theorem incomplete_worksheet_handled:
  assumes "selectedWords (app w) \<noteq> []" and "trim (mainText (app w)) \<noteq> []"
    and "ensureAiClient (client_env w) = Inr (c, e1)"
    and "gen_answer svc (length (requests (client_env w))) = Response t"
    and "parse_response_text rt t = Inr (JObj kvs)"
    and "map_of kvs ''title'' = None \<or> map_of kvs ''wordDetails'' = Some (JArr [])"
  shows "fst (generateWorksheetData rt (Response t) (mainText (app w)) (selectedWords (app w))
                (client_env w))
           = Inl (Error ''Could not generate worksheet: API returned incomplete worksheet data.'')
     \<and> error (app (handleGenerateWorksheet rt svc delay w)) =
          Some ''Could not generate worksheet: API returned incomplete worksheet data.''
     \<and> loadingState (app (handleGenerateWorksheet rt svc delay w)) = Idle
     \<and> showProgress (app (handleGenerateWorksheet rt svc delay w)) = False
     \<and> showProgress (app (advance rt svc later (handleGenerateWorksheet rt svc delay w))) = False"
proof -
  have 1: "fst (generateWorksheetData rt (Response t) (mainText (app w)) (selectedWords (app w))
                (client_env w))
           = Inl (Error ''Could not generate worksheet: API returned incomplete worksheet data.'')"
    using assms worksheet_incomplete[OF assms(5,6)]
    by (simp add: generateWorksheetData_def)
  have 2: "error (app (handleGenerateWorksheet rt svc delay w)) =
          Some ''Could not generate worksheet: API returned incomplete worksheet data.''
     \<and> loadingState (app (handleGenerateWorksheet rt svc delay w)) = Idle
     \<and> showProgress (app (handleGenerateWorksheet rt svc delay w)) = False"
    using assms worksheet_incomplete[OF assms(5,6)]
    by (simp add: handleGenerateWorksheet_def handleGenerateWorksheet_begin_def
        handleGenerateWorksheet_end_def generateWorksheetData_def Let_def split: prod.splits)
  then have "\<not> showProgress (app (handleGenerateWorksheet rt svc delay w))"
    by simp
  then have 3: "\<not> showProgress (app (advance rt svc later (handleGenerateWorksheet rt svc delay w)))"
    by (rule showProgress_advance)
  from 1 2 3 show ?thesis
    by simp
qed

lemma selected_world_simps:
  "selectedWords (app selected_world) = [''lucid'']"
  "mainText (app selected_world) = ''A lucid text.''"
  "client_env selected_world = client_env ready_world"
  by (simp_all add: selected_world_def)

theorem incomplete_worksheet_handled_witness:
  "selectedWords (app selected_world) \<noteq> [] \<and> trim (mainText (app selected_world)) \<noteq> []
   \<and> ensureAiClient (client_env selected_world) =
        Inr (GoogleGenAI ''AIzaSyExampleKey0123456789'', client_env selected_world)
   \<and> gen_answer incomplete_service (length (requests (client_env selected_world))) =
        Response (Some ''{\"summary\":\"s\"}'')
   \<and> parse_response_text example_runtime (Some ''{\"summary\":\"s\"}'') = Inr (JObj [(''summary'', JStr ''s'')])
   \<and> map_of [(''summary'', JStr ''s'')] ''title'' = None
   \<and> error (app (handleGenerateWorksheet example_runtime incomplete_service 1200 selected_world)) =
        Some ''Could not generate worksheet: API returned incomplete worksheet data.''
   \<and> loadingState (app (handleGenerateWorksheet example_runtime incomplete_service 1200 selected_world)) = Idle
   \<and> showProgress (app (handleGenerateWorksheet example_runtime incomplete_service 1200 selected_world)) = False"
proof -
  have h1: "selectedWords (app selected_world) \<noteq> []"
    and h2: "trim (mainText (app selected_world)) \<noteq> []"
    by (simp_all add: selected_world_simps trim_simps)
  have h3: "ensureAiClient (client_env selected_world) =
      Inr (GoogleGenAI ''AIzaSyExampleKey0123456789'', client_env selected_world)"
    by (simp add: selected_world_simps ensureAiClient_ready_world)
  have h4: "gen_answer incomplete_service (length (requests (client_env selected_world))) =
      Response (Some ''{\"summary\":\"s\"}'')"
    by (simp add: incomplete_service_def)
  have h5: "parse_response_text example_runtime (Some ''{\"summary\":\"s\"}'') =
      Inr (JObj [(''summary'', JStr ''s'')])"
    by (simp add: parse_response_text_def example_runtime_def)
  have h6: "map_of [(''summary'', JStr ''s'')] ''title'' = None
      \<or> map_of [(''summary'', JStr ''s'')] ''wordDetails'' = Some (JArr [])"
    by simp
  show ?thesis
    using h1 h2 h3 h4 h5 incomplete_worksheet_handled[OF h1 h2 h3 h4 h5 h6, of 1200]
    by simp
qed

section \<open>Properties of the progress steps\<close>

lemma progress_ids_filter: "progress_ids (filter is_progress ts) = progress_ids ts"
  by (induction ts rule: progress_ids.induct) auto

lemma progress_ids_Nil_filter: "progress_ids ts = [] \<Longrightarrow> filter is_progress ts = []"
  by (induction ts rule: progress_ids.induct) auto

lemma length_update_steps [simp]: "length (update_steps s d steps) = length steps"
  by (simp add: update_steps_def Let_def split: option.splits)

lemma progressSteps_updateProgressStep [simp]:
  "progressSteps (updateProgressStep s d a) = update_steps s d (progressSteps a)"
  by (simp add: updateProgressStep_def Let_def split: option.splits)

lemma loadingState_updateProgressStep [simp]:
  "loadingState (updateProgressStep s d a) = loadingState a"
  by (simp add: updateProgressStep_def Let_def split: option.splits)

lemma progressSteps_fetchDefinition [simp]:
  "progressSteps (app (fetchDefinition rt svc w)) = progressSteps (app w)"
  by (simp add: fetchDefinition_def Let_def split: prod.splits)

lemma progressSteps_run_effect [simp]:
  "progressSteps (app (run_effect rt svc w)) = progressSteps (app w)"
  by (simp add: run_effect_def Let_def)

lemma progressSteps_fire:
  "progressSteps (app (fire rt svc action w)) =
     (case action of
        Update_progress s \<Rightarrow> update_steps s True (progressSteps (app w))
      | _ \<Rightarrow> progressSteps (app w))"
  by (cases action) simp_all

lemma loadingState_fire: "loadingState (app (fire rt svc action w)) = loadingState (app w)"
  by (cases action) (simp_all add: run_effect_elsewhere)

lemma progressSteps_fold_fire:
  "progressSteps (app (fold (\<lambda>(due, action). fire rt svc action) ts w)) =
     fold (\<lambda>s. update_steps s True) (progress_ids ts) (progressSteps (app w))"
  by (induction ts arbitrary: w rule: progress_ids.induct) (simp_all add: progressSteps_fire)

lemma loadingState_fold_fire:
  "loadingState (app (fold (\<lambda>(due, action). fire rt svc action) ts w)) = loadingState (app w)"
  by (induction ts arbitrary: w) (simp_all add: loadingState_fire split: prod.splits)

lemma progressSteps_advance:
  "progressSteps (app (advance rt svc t w)) =
     fold (\<lambda>s. update_steps s True) (due_progress t w) (progressSteps (app w))"
  by (simp add: advance_def progressSteps_fold_fire due_progress_def)

lemma loadingState_advance: "loadingState (app (advance rt svc t w)) = loadingState (app w)"
  by (simp add: advance_def loadingState_fold_fire)

lemma progress_ids_sort_key:
  "progress_ids (sort_key fst xs) = progress_ids (sort_key fst (filter is_progress xs))"
  by (metis filter_sort progress_ids_filter)

text \<open>Timers that hold no progress update do not matter to the progress updates that run.\<close>

lemma due_progress_fresh:
  assumes "progress_ids old = []"
  shows "progress_ids (sort_key fst (filter (\<lambda>(due, action). due \<le> t) (old @ new))) =
         progress_ids (sort_key fst (filter (\<lambda>(due, action). due \<le> t) new))"
proof -
  have "filter is_progress old = []"
    using assms by (rule progress_ids_Nil_filter)
  then have "\<forall>x\<in>set old. \<not> is_progress x"
    by (simp add: filter_empty_conv)
  then have "filter is_progress (filter (\<lambda>(due, action). due \<le> t) (old @ new)) =
        filter is_progress (filter (\<lambda>(due, action). due \<le> t) new)"
    by (auto simp: filter_empty_conv)
  then show ?thesis
    by (metis progress_ids_sort_key)
qed

lemma due_three:
  "a < b \<Longrightarrow> b < c \<Longrightarrow>
   progress_ids (sort_key fst (filter (\<lambda>(due, action). due \<le> t)
      [(a, Update_progress x), (b, Update_progress y), (c, Update_progress z)])) =
   (if t < a then [] else if t < b then [x] else if t < c then [x, y] else [x, y, z])"
  by auto

lemma handleAnalyze_begin_progress:
  assumes "apiKeyConfigured (app w)"
  shows "timers (fst (handleAnalyze_begin rt svc txt w)) =
           timers w @ [(now w + 500, Update_progress ''preprocessing''),
                       (now w + 1500, Update_progress ''analysis''),
                       (now w + 2500, Update_progress ''ranking'')]"
    and "progressSteps (app (fst (handleAnalyze_begin rt svc txt w))) =
           createProgressSteps Analyze_steps"
    and "loadingState (app (fst (handleAnalyze_begin rt svc txt w))) = Analyzing"
  using assms
  by (simp_all add: handleAnalyze_begin_def setTimeout_def Let_def split: prod.splits)

lemma handleGenerateWorksheet_begin_progress:
  assumes "selectedWords (app w) \<noteq> []"
  shows "timers (fst (handleGenerateWorksheet_begin rt svc w)) =
           timers w @ [(now w + 800, Update_progress ''setup''),
                       (now w + 2000, Update_progress ''definitions''),
                       (now w + 4000, Update_progress ''questions'')]"
    and "progressSteps (app (fst (handleGenerateWorksheet_begin rt svc w))) =
           createProgressSteps Worksheet_steps"
    and "loadingState (app (fst (handleGenerateWorksheet_begin rt svc w))) = Generating_worksheet"
  using assms
  by (simp_all add: handleGenerateWorksheet_begin_def setTimeout_def Let_def split: prod.splits)

lemma analyze_steps_active:
  "count_active (createProgressSteps Analyze_steps) = 1"
  "count_active (update_steps ''preprocessing'' True (createProgressSteps Analyze_steps)) = 1"
  "count_active (update_steps ''analysis'' True
     (update_steps ''preprocessing'' True (createProgressSteps Analyze_steps))) = 1"
  "count_active (update_steps ''ranking'' True (update_steps ''analysis'' True
     (update_steps ''preprocessing'' True (createProgressSteps Analyze_steps)))) = 1"
  by (simp_all add: count_active_def update_steps_def mk_step_def)

lemma worksheet_steps_active:
  "count_active (createProgressSteps Worksheet_steps) = 1"
  "count_active (update_steps ''setup'' True (createProgressSteps Worksheet_steps)) = 1"
  "count_active (update_steps ''definitions'' True
     (update_steps ''setup'' True (createProgressSteps Worksheet_steps))) = 1"
  "count_active (update_steps ''questions'' True (update_steps ''definitions'' True
     (update_steps ''setup'' True (createProgressSteps Worksheet_steps)))) = 1"
  by (simp_all add: count_active_def update_steps_def mk_step_def)

lemma findIndex_less: "findIndex P xs = Some i \<Longrightarrow> i < length xs"
  by (induction xs arbitrary: i) (auto split: if_splits)

lemma completed_update_steps:
  "i < length steps \<Longrightarrow> completed (steps ! i) \<Longrightarrow> completed (update_steps s True steps ! i)"
  by (auto simp: update_steps_def Let_def nth_list_update dest: findIndex_less split: option.splits)

lemma completed_fold_update_steps:
  "i < length steps \<Longrightarrow> completed (steps ! i) \<Longrightarrow>
   completed (fold (\<lambda>s. update_steps s True) ids steps ! i)"
  by (induction ids arbitrary: steps) (simp_all add: completed_update_steps)

lemma timers_fire: "timers (fire rt svc action w) = timers w"
  by (cases action) (simp_all add: run_effect_def run_cleanup_def fetchDefinition_def Let_def split: option.splits prod.splits)

lemma timers_fold_fire:
  "timers (fold (\<lambda>(due, action). fire rt svc action) ts w) = timers w"
  by (induction ts arbitrary: w) (simp_all add: timers_fire split: prod.splits)

lemma timers_advance:
  "timers (advance rt svc t w) = filter (\<lambda>(due, action). \<not> due \<le> t) (timers w)"
  by (simp add: advance_def timers_fold_fire)

lemma progress_ids_filter_Nil: "progress_ids ts = [] \<Longrightarrow> progress_ids (filter P ts) = []"
  by (induction ts rule: progress_ids.induct) auto

lemma later_three:
  "a < b \<Longrightarrow> b < c \<Longrightarrow> t \<le> t' \<Longrightarrow>
   (if t < a then [] else if t < b then [x] else if t < c then [x, y] else [x, y, z]) @
   progress_ids (sort_key fst (filter (\<lambda>(due, action). due \<le> t')
      (filter (\<lambda>(due, action). \<not> due \<le> t)
        [(a, Update_progress x), (b, Update_progress y), (c, Update_progress z)]))) =
   (if t' < a then [] else if t' < b then [x] else if t' < c then [x, y] else [x, y, z])"
  by auto

lemma analyze_steps_flags:
  "map (\<lambda>s. (completed s, active s))
     (fold (\<lambda>s. update_steps s True) (take k [''preprocessing'', ''analysis'', ''ranking''])
        (createProgressSteps Analyze_steps)) =
   [(0 < k, k = 0), (1 < k, k = 1), (2 < k, k = 2), (False, 3 \<le> k)]"
proof -
  consider "k = 0" | "k = 1" | "k = 2" | "3 \<le> k"
    by linarith
  then show ?thesis
    by cases (simp_all add: update_steps_def mk_step_def)
qed

lemma worksheet_steps_flags:
  "map (\<lambda>s. (completed s, active s))
     (fold (\<lambda>s. update_steps s True) (take k [''setup'', ''definitions'', ''questions''])
        (createProgressSteps Worksheet_steps)) =
   [(0 < k, k = 0), (1 < k, k = 1), (2 < k, k = 2), (False, 3 \<le> k)]"
proof -
  consider "k = 0" | "k = 1" | "k = 2" | "3 \<le> k"
    by linarith
  then show ?thesis
    by cases (simp_all add: update_steps_def mk_step_def)
qed

lemma flags_length:
  "map f steps = [a, b, c, d] \<Longrightarrow> length steps = 4"
  by (drule arg_cong[where f = length]) simp

lemma steps_forward:
  fixes k k' :: nat
  assumes "map (\<lambda>s. (completed s, active s)) steps =
      [(0 < k, k = 0), (1 < k, k = 1), (2 < k, k = 2), (False, 3 \<le> k)]"
    and "map (\<lambda>s. (completed s, active s)) steps' =
      [(0 < k', k' = 0), (1 < k', k' = 1), (2 < k', k' = 2), (False, 3 \<le> k')]"
    and "k \<le> k'" and "i < length steps" and "completed (steps ! i)"
  shows "completed (steps' ! i) \<and> \<not> active (steps' ! i)"
proof -
  have len: "length steps = 4" "length steps' = 4"
    using assms(1,2) by (simp_all add: flags_length)
  have c: "fst (map (\<lambda>s. (completed s, active s)) steps ! i)"
    using assms(4,5) by simp
  have "fst (map (\<lambda>s. (completed s, active s)) steps' ! i)
      \<and> \<not> snd (map (\<lambda>s. (completed s, active s)) steps' ! i)"
  proof -
    from assms(4) len consider "i = 0" | "i = 1" | "i = 2" | "i = 3"
      by linarith
    then show ?thesis
      using c assms(3) unfolding assms(1,2)
      by cases simp_all
  qed
  with len assms(4) show ?thesis
    by simp
qed


lemma due_progress_later:
  assumes "progress_ids old = []" and "a < b" and "b < c" and "t \<le> t'"
    and "timers w = old @ [(a, Update_progress x), (b, Update_progress y), (c, Update_progress z)]"
  shows "due_progress t w @ due_progress t' (advance rt svc t w) = due_progress t' w"
proof -
  have 1: "due_progress t w =
      (if t < a then [] else if t < b then [x] else if t < c then [x, y] else [x, y, z])" for t
    unfolding due_progress_def assms(5) due_progress_fresh[OF assms(1)]
    using assms(2,3) by (rule due_three)
  have "progress_ids (filter (\<lambda>(due, action). \<not> due \<le> t) old) = []"
    using assms(1) by (rule progress_ids_filter_Nil)
  then have 2: "due_progress t' (advance rt svc t w) =
      progress_ids (sort_key fst (filter (\<lambda>(due, action). due \<le> t')
        (filter (\<lambda>(due, action). \<not> due \<le> t)
          [(a, Update_progress x), (b, Update_progress y), (c, Update_progress z)])))"
    unfolding due_progress_def timers_advance assms(5)
      filter_append[of "\<lambda>(due, action). \<not> due \<le> t"]
    by (rule due_progress_fresh)
  show ?thesis
    unfolding 1 2 using assms(2,3,4) by (rule later_three)
qed

lemma progressSteps_advance_later:
  assumes "progress_ids old = []" and "a < b" and "b < c" and "t \<le> t'"
    and "timers w = old @ [(a, Update_progress x), (b, Update_progress y), (c, Update_progress z)]"
  shows "progressSteps (app (advance rt svc t' (advance rt svc t w))) =
         progressSteps (app (advance rt svc t' w))"
proof -
  have "progressSteps (app (advance rt svc t' (advance rt svc t w))) =
      fold (\<lambda>s. update_steps s True) (due_progress t w @ due_progress t' (advance rt svc t w))
        (progressSteps (app w))"
    by (simp add: progressSteps_advance)
  then show ?thesis
    unfolding due_progress_later[OF assms] by (simp add: progressSteps_advance)
qed

lemma due_take:
  "a < b \<Longrightarrow> b < c \<Longrightarrow>
   progress_ids (sort_key fst (filter (\<lambda>(due, action). due \<le> t)
      [(a, Update_progress x), (b, Update_progress y), (c, Update_progress z)])) =
   take (if t < a then 0 else if t < b then 1 else if t < c then 2 else 3) [x, y, z]"
  by (simp add: due_three)

lemma analyze_flags_at:
  assumes "progress_ids (timers w) = []" and "apiKeyConfigured (app w)"
    and "k = (if t < now w + 500 then 0 else if t < now w + 1500 then 1
              else if t < now w + 2500 then 2 else (3::nat))"
  shows "map (\<lambda>s. (completed s, active s))
      (progressSteps (app (advance rt svc t (fst (handleAnalyze_begin rt svc txt w))))) =
    [(0 < k, k = 0), (1 < k, k = 1), (2 < k, k = 2), (False, 3 \<le> k)]"
proof -
  have "due_progress t (fst (handleAnalyze_begin rt svc txt w)) =
      take k [''preprocessing'', ''analysis'', ''ranking'']"
    unfolding due_progress_def handleAnalyze_begin_progress(1)[OF assms(2)]
      due_progress_fresh[OF assms(1)] assms(3)
    by (rule due_take) simp_all
  then show ?thesis
    unfolding progressSteps_advance handleAnalyze_begin_progress(2)[OF assms(2)]
    by (simp only: analyze_steps_flags)
qed

lemma worksheet_flags_at:
  assumes "progress_ids (timers w) = []" and "selectedWords (app w) \<noteq> []"
    and "k = (if t < now w + 800 then 0 else if t < now w + 2000 then 1
              else if t < now w + 4000 then 2 else (3::nat))"
  shows "map (\<lambda>s. (completed s, active s))
      (progressSteps (app (advance rt svc t (fst (handleGenerateWorksheet_begin rt svc w))))) =
    [(0 < k, k = 0), (1 < k, k = 1), (2 < k, k = 2), (False, 3 \<le> k)]"
proof -
  have "due_progress t (fst (handleGenerateWorksheet_begin rt svc w)) =
      take k [''setup'', ''definitions'', ''questions'']"
    unfolding due_progress_def handleGenerateWorksheet_begin_progress(1)[OF assms(2)]
      due_progress_fresh[OF assms(1)] assms(3)
    by (rule due_take) simp_all
  then show ?thesis
    unfolding progressSteps_advance handleGenerateWorksheet_begin_progress(2)[OF assms(2)]
    by (simp only: worksheet_steps_flags)
qed

lemma analyze_steps_forward:
  assumes a1: "progress_ids (timers w) = []" and a2: "apiKeyConfigured (app w)" and le: "t \<le> t'"
    and i: "i < length (progressSteps (app (advance rt svc t (fst (handleAnalyze_begin rt svc txt w)))))"
    and c: "completed (progressSteps (app (advance rt svc t (fst (handleAnalyze_begin rt svc txt w)))) ! i)"
  shows "completed (progressSteps (app (advance rt svc t'
            (advance rt svc t (fst (handleAnalyze_begin rt svc txt w))))) ! i)
       \<and> \<not> active (progressSteps (app (advance rt svc t'
            (advance rt svc t (fst (handleAnalyze_begin rt svc txt w))))) ! i)"
proof -
  have later: "progressSteps (app (advance rt svc t'
        (advance rt svc t (fst (handleAnalyze_begin rt svc txt w))))) =
      progressSteps (app (advance rt svc t' (fst (handleAnalyze_begin rt svc txt w))))"
    by (rule progressSteps_advance_later[OF a1 _ _ le handleAnalyze_begin_progress(1)[OF a2]])
      simp_all
  show ?thesis
    unfolding later
    by (rule steps_forward[OF analyze_flags_at[OF a1 a2 refl] analyze_flags_at[OF a1 a2 refl] _ i c])
      (use le in simp)
qed

lemma worksheet_steps_forward:
  assumes a1: "progress_ids (timers w) = []" and a2: "selectedWords (app w) \<noteq> []" and le: "t \<le> t'"
    and i: "i < length (progressSteps (app (advance rt svc t (fst (handleGenerateWorksheet_begin rt svc w)))))"
    and c: "completed (progressSteps (app (advance rt svc t (fst (handleGenerateWorksheet_begin rt svc w)))) ! i)"
  shows "completed (progressSteps (app (advance rt svc t'
            (advance rt svc t (fst (handleGenerateWorksheet_begin rt svc w))))) ! i)
       \<and> \<not> active (progressSteps (app (advance rt svc t'
            (advance rt svc t (fst (handleGenerateWorksheet_begin rt svc w))))) ! i)"
proof -
  have later: "progressSteps (app (advance rt svc t'
        (advance rt svc t (fst (handleGenerateWorksheet_begin rt svc w))))) =
      progressSteps (app (advance rt svc t' (fst (handleGenerateWorksheet_begin rt svc w))))"
    by (rule progressSteps_advance_later[OF a1 _ _ le handleGenerateWorksheet_begin_progress(1)[OF a2]])
      simp_all
  show ?thesis
    unfolding later
    by (rule steps_forward[OF worksheet_flags_at[OF a1 a2 refl] worksheet_flags_at[OF a1 a2 refl] _ i c])
      (use le in simp)
qed

text \<open>
  Claim C4, as amended. Take an analysis started by \<^verbatim>\<open>handleAnalyze\<close>, or a worksheet
  generation started by \<^verbatim>\<open>handleGenerateWorksheet\<close>, at a moment when no progress update of
  an earlier operation is still waiting in a timer. Then at every time \<^verbatim>\<open>t\<close> while its
  request is awaited, the operation is in progress and exactly one step of its template is
  active; and a step that is completed at time \<^verbatim>\<open>t\<close> is, at every later time \<^verbatim>\<open>t'\<close> while
  the request is awaited, still completed and not active: steps neither regress nor become
  active again. And whatever timers run, in any state, a step that is completed stays
  completed. (What timers left over from an earlier operation do to a later one, and the
  operations that show no progress steps, are outside this statement.)
\<close>

theorem progress_steps_of_one_operation:
  "(progress_ids (timers w) = [] \<and> apiKeyConfigured (app w) \<longrightarrow>
      loadingState (app (advance rt svc t (fst (handleAnalyze_begin rt svc txt w)))) = Analyzing
      \<and> count_active (progressSteps (app (advance rt svc t (fst (handleAnalyze_begin rt svc txt w))))) = 1
      \<and> (t \<le> t'
           \<and> i < length (progressSteps (app (advance rt svc t (fst (handleAnalyze_begin rt svc txt w)))))
           \<and> completed (progressSteps (app (advance rt svc t (fst (handleAnalyze_begin rt svc txt w)))) ! i)
         \<longrightarrow>
           completed (progressSteps (app (advance rt svc t'
              (advance rt svc t (fst (handleAnalyze_begin rt svc txt w))))) ! i)
           \<and> \<not> active (progressSteps (app (advance rt svc t'
              (advance rt svc t (fst (handleAnalyze_begin rt svc txt w))))) ! i)))
   \<and> (progress_ids (timers w) = [] \<and> selectedWords (app w) \<noteq> [] \<longrightarrow>
      loadingState (app (advance rt svc t (fst (handleGenerateWorksheet_begin rt svc w)))) =
        Generating_worksheet
      \<and> count_active (progressSteps (app (advance rt svc t (fst (handleGenerateWorksheet_begin rt svc w))))) = 1
      \<and> (t \<le> t'
           \<and> i < length (progressSteps (app (advance rt svc t (fst (handleGenerateWorksheet_begin rt svc w)))))
           \<and> completed (progressSteps (app (advance rt svc t (fst (handleGenerateWorksheet_begin rt svc w)))) ! i)
         \<longrightarrow>
           completed (progressSteps (app (advance rt svc t'
              (advance rt svc t (fst (handleGenerateWorksheet_begin rt svc w))))) ! i)
           \<and> \<not> active (progressSteps (app (advance rt svc t'
              (advance rt svc t (fst (handleGenerateWorksheet_begin rt svc w))))) ! i)))
   \<and> (i < length (progressSteps (app w)) \<and> completed (progressSteps (app w) ! i) \<longrightarrow>
      completed (progressSteps (app (advance rt svc t w)) ! i))"
proof -
  have analyze: "loadingState (app (advance rt svc t (fst (handleAnalyze_begin rt svc txt w)))) = Analyzing
      \<and> count_active (progressSteps (app (advance rt svc t (fst (handleAnalyze_begin rt svc txt w))))) = 1"
    if a1: "progress_ids (timers w) = []" and a2: "apiKeyConfigured (app w)"
  proof
    show "loadingState (app (advance rt svc t (fst (handleAnalyze_begin rt svc txt w)))) = Analyzing"
      by (simp add: loadingState_advance handleAnalyze_begin_progress(3)[OF a2])
    have "due_progress t (fst (handleAnalyze_begin rt svc txt w)) =
        (if t < now w + 500 then [] else if t < now w + 1500 then [''preprocessing'']
         else if t < now w + 2500 then [''preprocessing'', ''analysis'']
         else [''preprocessing'', ''analysis'', ''ranking''])"
      unfolding due_progress_def handleAnalyze_begin_progress(1)[OF a2] due_progress_fresh[OF a1]
      by (rule due_three) simp_all
    then show "count_active (progressSteps (app (advance rt svc t
        (fst (handleAnalyze_begin rt svc txt w))))) = 1"
      by (simp add: progressSteps_advance handleAnalyze_begin_progress(2)[OF a2] analyze_steps_active
          del: createProgressSteps.simps)
  qed
  have worksheet: "loadingState (app (advance rt svc t (fst (handleGenerateWorksheet_begin rt svc w)))) =
        Generating_worksheet
      \<and> count_active (progressSteps (app (advance rt svc t (fst (handleGenerateWorksheet_begin rt svc w))))) = 1"
    if a1: "progress_ids (timers w) = []" and a2: "selectedWords (app w) \<noteq> []"
  proof
    show "loadingState (app (advance rt svc t (fst (handleGenerateWorksheet_begin rt svc w)))) =
        Generating_worksheet"
      by (simp add: loadingState_advance handleGenerateWorksheet_begin_progress(3)[OF a2])
    have "due_progress t (fst (handleGenerateWorksheet_begin rt svc w)) =
        (if t < now w + 800 then [] else if t < now w + 2000 then [''setup'']
         else if t < now w + 4000 then [''setup'', ''definitions'']
         else [''setup'', ''definitions'', ''questions''])"
      unfolding due_progress_def handleGenerateWorksheet_begin_progress(1)[OF a2]
        due_progress_fresh[OF a1]
      by (rule due_three) simp_all
    then show "count_active (progressSteps (app (advance rt svc t
        (fst (handleGenerateWorksheet_begin rt svc w))))) = 1"
      by (simp add: progressSteps_advance handleGenerateWorksheet_begin_progress(2)[OF a2]
          worksheet_steps_active del: createProgressSteps.simps)
  qed
  have kept: "completed (progressSteps (app (advance rt svc t w)) ! i)"
    if "i < length (progressSteps (app w))" and "completed (progressSteps (app w) ! i)"
    using that by (simp add: progressSteps_advance completed_fold_update_steps)
  show ?thesis
  proof (intro conjI impI)
    assume h: "progress_ids (timers w) = [] \<and> apiKeyConfigured (app w)"
    then have a1: "progress_ids (timers w) = []" and a2: "apiKeyConfigured (app w)"
      by simp_all
    from analyze[OF a1 a2]
    show "loadingState (app (advance rt svc t (fst (handleAnalyze_begin rt svc txt w)))) = Analyzing"
      and "count_active (progressSteps (app (advance rt svc t (fst (handleAnalyze_begin rt svc txt w))))) = 1"
      by (rule conjunct1, rule conjunct2)
    assume g: "t \<le> t'
        \<and> i < length (progressSteps (app (advance rt svc t (fst (handleAnalyze_begin rt svc txt w)))))
        \<and> completed (progressSteps (app (advance rt svc t (fst (handleAnalyze_begin rt svc txt w)))) ! i)"
    from analyze_steps_forward[OF a1 a2 conjunct1[OF g] conjunct1[OF conjunct2[OF g]]
        conjunct2[OF conjunct2[OF g]]]
    show "completed (progressSteps (app (advance rt svc t'
              (advance rt svc t (fst (handleAnalyze_begin rt svc txt w))))) ! i)"
      and "\<not> active (progressSteps (app (advance rt svc t'
              (advance rt svc t (fst (handleAnalyze_begin rt svc txt w))))) ! i)"
      by (rule conjunct1, rule conjunct2)
  next
    assume h: "progress_ids (timers w) = [] \<and> selectedWords (app w) \<noteq> []"
    then have a1: "progress_ids (timers w) = []" and a2: "selectedWords (app w) \<noteq> []"
      by simp_all
    from worksheet[OF a1 a2]
    show "loadingState (app (advance rt svc t (fst (handleGenerateWorksheet_begin rt svc w)))) =
        Generating_worksheet"
      and "count_active (progressSteps (app (advance rt svc t (fst (handleGenerateWorksheet_begin rt svc w))))) = 1"
      by (rule conjunct1, rule conjunct2)
    assume g: "t \<le> t'
        \<and> i < length (progressSteps (app (advance rt svc t (fst (handleGenerateWorksheet_begin rt svc w)))))
        \<and> completed (progressSteps (app (advance rt svc t (fst (handleGenerateWorksheet_begin rt svc w)))) ! i)"
    from worksheet_steps_forward[OF a1 a2 conjunct1[OF g] conjunct1[OF conjunct2[OF g]]
        conjunct2[OF conjunct2[OF g]]]
    show "completed (progressSteps (app (advance rt svc t'
              (advance rt svc t (fst (handleGenerateWorksheet_begin rt svc w))))) ! i)"
      and "\<not> active (progressSteps (app (advance rt svc t'
              (advance rt svc t (fst (handleGenerateWorksheet_begin rt svc w))))) ! i)"
      by (rule conjunct1, rule conjunct2)
  next
    assume "i < length (progressSteps (app w)) \<and> completed (progressSteps (app w) ! i)"
    then show "completed (progressSteps (app (advance rt svc t w)) ! i)"
      using kept by simp
  qed
qed

theorem progress_steps_of_one_operation_witness:
  "progress_ids (timers selected_world) = [] \<and> apiKeyConfigured (app selected_world)
   \<and> selectedWords (app selected_world) \<noteq> []
   \<and> count_active (progressSteps (app (advance example_runtime failing_service 1600
        (fst (handleAnalyze_begin example_runtime failing_service ''A lucid text.'' selected_world))))) = 1
   \<and> count_active (progressSteps (app (advance example_runtime failing_service 1600
        (fst (handleGenerateWorksheet_begin example_runtime failing_service selected_world))))) = 1
   \<and> completed (progressSteps (app (advance example_runtime failing_service 1600
        (fst (handleAnalyze_begin example_runtime failing_service ''A lucid text.'' selected_world)))) ! 0)
   \<and> completed (progressSteps (app (advance example_runtime failing_service 3000
        (advance example_runtime failing_service 1600
          (fst (handleAnalyze_begin example_runtime failing_service ''A lucid text.'' selected_world))))) ! 0)
   \<and> \<not> active (progressSteps (app (advance example_runtime failing_service 3000
        (advance example_runtime failing_service 1600
          (fst (handleAnalyze_begin example_runtime failing_service ''A lucid text.'' selected_world))))) ! 0)
   \<and> completed (progressSteps (app (advance example_runtime failing_service 1600
        (fst (handleGenerateWorksheet_begin example_runtime failing_service selected_world)))) ! 0)
   \<and> completed (progressSteps (app (advance example_runtime failing_service 3000
        (advance example_runtime failing_service 1600
          (fst (handleGenerateWorksheet_begin example_runtime failing_service selected_world))))) ! 0)
   \<and> \<not> active (progressSteps (app (advance example_runtime failing_service 3000
        (advance example_runtime failing_service 1600
          (fst (handleGenerateWorksheet_begin example_runtime failing_service selected_world))))) ! 0)"
proof -
  have h1: "progress_ids (timers selected_world) = [] \<and> apiKeyConfigured (app selected_world)"
    and h2: "progress_ids (timers selected_world) = [] \<and> selectedWords (app selected_world) \<noteq> []"
    by code_simp+
  have h3: "(1600::nat) \<le> 3000
     \<and> 0 < length (progressSteps (app (advance example_runtime failing_service 1600
        (fst (handleAnalyze_begin example_runtime failing_service ''A lucid text.'' selected_world)))))
     \<and> completed (progressSteps (app (advance example_runtime failing_service 1600
        (fst (handleAnalyze_begin example_runtime failing_service ''A lucid text.'' selected_world)))) ! 0)"
    by code_simp
  have h4: "(1600::nat) \<le> 3000
     \<and> 0 < length (progressSteps (app (advance example_runtime failing_service 1600
        (fst (handleGenerateWorksheet_begin example_runtime failing_service selected_world)))))
     \<and> completed (progressSteps (app (advance example_runtime failing_service 1600
        (fst (handleGenerateWorksheet_begin example_runtime failing_service selected_world)))) ! 0)"
    by code_simp
  note th = progress_steps_of_one_operation[where w = selected_world and rt = example_runtime
      and svc = failing_service and t = 1600 and t' = 3000 and i = 0 and ?txt = "''A lucid text.''"]
  from th h1 have a: "count_active (progressSteps (app (advance example_runtime failing_service 1600
        (fst (handleAnalyze_begin example_runtime failing_service ''A lucid text.'' selected_world))))) = 1"
    by blast
  from th h1 h3 have b: "completed (progressSteps (app (advance example_runtime failing_service 3000
        (advance example_runtime failing_service 1600
          (fst (handleAnalyze_begin example_runtime failing_service ''A lucid text.'' selected_world))))) ! 0)
      \<and> \<not> active (progressSteps (app (advance example_runtime failing_service 3000
        (advance example_runtime failing_service 1600
          (fst (handleAnalyze_begin example_runtime failing_service ''A lucid text.'' selected_world))))) ! 0)"
    by blast
  from th h2 have c: "count_active (progressSteps (app (advance example_runtime failing_service 1600
        (fst (handleGenerateWorksheet_begin example_runtime failing_service selected_world))))) = 1"
    by blast
  from th h2 h4 have d: "completed (progressSteps (app (advance example_runtime failing_service 3000
        (advance example_runtime failing_service 1600
          (fst (handleGenerateWorksheet_begin example_runtime failing_service selected_world))))) ! 0)
      \<and> \<not> active (progressSteps (app (advance example_runtime failing_service 3000
        (advance example_runtime failing_service 1600
          (fst (handleGenerateWorksheet_begin example_runtime failing_service selected_world))))) ! 0)"
    by blast
  from h1 h2 h3 h4 a b c d show ?thesis
    by blast
qed

text \<open>
  The claim as stated fails. \<^verbatim>\<open>handleRandom\<close> puts the application in the state
  \<^verbatim>\<open>analyzing\<close> and sets no progress steps: started first, it has no active step. And no
  timer is ever cleared: when an analysis fails after 1600 ms and the next one is started
  at 1700 ms, the update of \<^verbatim>\<open>ranking\<close> that the first one scheduled runs at 2500 ms
  on the steps of the second, which then has two active steps.
\<close>

theorem progress_steps_counterexample:
  "loadingState (app (handleRandom_begin failing_service 3 ready_world)) = Analyzing
   \<and> count_active (progressSteps (app (handleRandom_begin failing_service 3 ready_world))) = 0
   \<and> loadingState (app (advance example_runtime failing_service 2500
        (fst (handleAnalyze_begin example_runtime failing_service ''A lucid text.''
           (advance example_runtime failing_service 1700
              (handleAnalyze example_runtime failing_service ''A lucid text.'' 1600 ready_world))))))
       = Analyzing
   \<and> count_active (progressSteps (app (advance example_runtime failing_service 2500
        (fst (handleAnalyze_begin example_runtime failing_service ''A lucid text.''
           (advance example_runtime failing_service 1700
              (handleAnalyze example_runtime failing_service ''A lucid text.'' 1600 ready_world)))))))
       = 2"
  by code_simp

section \<open>Properties of the definition effect\<close>

lemma length_fetches_deliver [simp]: "length (fetches (deliver d w)) = length (fetches w)"
  by (cases d) (auto simp: next_chunk_def art_settled_def Let_def split: list.splits option.splits)

lemma now_deliver [simp]: "now (deliver d w) = now w"
  by (cases d) (auto simp: next_chunk_def art_settled_def Let_def split: list.splits option.splits)

lemma isCancelled_deliver [simp]:
  "i < length (fetches w) \<Longrightarrow> isCancelled (fetches (deliver d w) ! i) = isCancelled (fetches w ! i)"
  by (cases d) (auto simp: next_chunk_def art_settled_def Let_def nth_list_update split: list.splits option.splits)

lemma fetch_deliver_other:
  "target d \<noteq> k \<Longrightarrow> fetches (deliver d w) ! k = fetches w ! k"
  by (cases d) (auto simp: next_chunk_def art_settled_def Let_def split: list.splits option.splits)

lemma app_deliver_cancelled:
  "target d < length (fetches w) \<longrightarrow> isCancelled (fetches w ! target d) \<Longrightarrow>
   app (deliver d w) = app w"
  by (cases d) (auto simp: next_chunk_def art_settled_def finish_fetch_def Let_def split: list.splits option.splits)

lemma others_cancelled_deliver: "others_cancelled k w \<Longrightarrow> others_cancelled k (deliver d w)"
  by (simp add: others_cancelled_def)

lemma app_deliver_other:
  "others_cancelled k w \<Longrightarrow> target d \<noteq> k \<Longrightarrow> app (deliver d w) = app w"
  by (rule app_deliver_cancelled) (simp add: others_cancelled_def)

lemma deliver_local:
  assumes "app w = app w'" "now w = now w'" "fetches w ! k = fetches w' ! k"
    "k < length (fetches w)" "k < length (fetches w')" "target d = k"
  shows "app (deliver d w) = app (deliver d w') \<and> fetches (deliver d w) ! k = fetches (deliver d w') ! k"
  using assms
  by (cases d) (auto simp: next_chunk_def art_settled_def Let_def split: list.splits option.splits)

lemma projection_step:
  assumes "others_cancelled k w" "same_for k w w'"
  shows "same_for k (deliver d w) (if target d = k then deliver d w' else w')"
proof (cases "target d = k")
  case True
  with assms deliver_local[of w w' k d] show ?thesis
    by (simp add: same_for_def)
next
  case False
  with assms show ?thesis
    by (simp add: same_for_def app_deliver_other fetch_deliver_other)
qed

lemma projection:
  "others_cancelled k w \<Longrightarrow> same_for k w w' \<Longrightarrow>
   same_for k (deliver_all ds w) (deliver_all (filter (\<lambda>d. target d = k) ds) w')"
proof (induction ds arbitrary: w w')
  case Nil
  then show ?case by (simp add: deliver_all_def)
next
  case (Cons d ds)
  from Cons.prems have 1: "others_cancelled k (deliver d w)"
    by (simp add: others_cancelled_deliver)
  from Cons.prems have 2: "same_for k (deliver d w) (if target d = k then deliver d w' else w')"
    by (rule projection_step)
  from Cons.IH[OF 1 2] show ?case
    by (auto simp: deliver_all_def split: if_splits)
qed

lemma chunk_progress_step:
  assumes "others_cancelled k u" "chunk_progress k ys n u"
  shows "chunk_progress k ys (if d = Next_chunk k then Suc n else n) (deliver d u)"
proof (cases d)
  case (Next_chunk i)
  show ?thesis
  proof (cases "i = k")
    case True
    consider "n < length ys" | "n = length ys" | "n > length ys" by linarith
    then show ?thesis
    proof cases
      case 1
      then have "drop n ys = ys ! n # drop (Suc n) ys"
        by (simp add: Cons_nth_drop_Suc)
      with assms 1 True Next_chunk show ?thesis
        by (simp add: chunk_progress_def others_cancelled_def next_chunk_def Let_def
            take_Suc_conv_app_nth)
    next
      case 2
      with assms True Next_chunk show ?thesis
        by (simp add: chunk_progress_def others_cancelled_def next_chunk_def Let_def
            finish_fetch_def split: option.splits)
    next
      case 3
      with assms True Next_chunk show ?thesis
        by (simp add: chunk_progress_def others_cancelled_def next_chunk_def Let_def)
    qed
  next
    case False
    with assms Next_chunk show ?thesis
      using app_deliver_other[of k u d] fetch_deliver_other[of d k u]
      by (simp add: chunk_progress_def)
  qed
next
  case (Art_settled i)
  with assms show ?thesis
    by (auto simp: chunk_progress_def others_cancelled_def art_settled_def Let_def nth_list_update
        split: option.splits)
qed

lemma chunk_progress_all:
  "others_cancelled k u \<Longrightarrow> chunk_progress k ys n u \<Longrightarrow>
   chunk_progress k ys (n + length (filter (\<lambda>d. d = Next_chunk k) ds)) (deliver_all ds u)"
proof (induction ds arbitrary: u n)
  case Nil
  then show ?case by (simp add: deliver_all_def)
next
  case (Cons d ds)
  from Cons.prems have 1: "others_cancelled k (deliver d u)"
    by (simp add: others_cancelled_deliver)
  from Cons.prems have 2: "chunk_progress k ys (if d = Next_chunk k then Suc n else n) (deliver d u)"
    by (rule chunk_progress_step)
  from Cons.IH[OF 1 2] show ?case
    by (auto simp: deliver_all_def split: if_splits)
qed

lemma superseded_cancelled_iff:
  "superseded_cancelled w \<longleftrightarrow>
     (\<forall>i<length (fetches w). cleanup w \<noteq> Some i \<longrightarrow> isCancelled (fetches w ! i))
     \<and> (\<forall>i. cleanup w = Some i \<longrightarrow> i < length (fetches w))"
  by (auto simp: superseded_cancelled_def list_all_iff split: option.splits)

lemma run_cleanup_cancels:
  "superseded_cancelled w \<Longrightarrow> i < length (fetches w) \<Longrightarrow> isCancelled (fetches (run_cleanup w) ! i)"
  by (auto simp: superseded_cancelled_iff run_cleanup_def nth_list_update split: option.splits)

lemma length_fetches_run_cleanup [simp]: "length (fetches (run_cleanup w)) = length (fetches w)"
  by (simp add: run_cleanup_def split: option.splits)

lemma client_env_run_cleanup [simp]: "client_env (run_cleanup w) = client_env w"
  by (simp add: run_cleanup_def split: option.splits)

lemma now_run_cleanup [simp]: "now (run_cleanup w) = now w"
  by (simp add: run_cleanup_def split: option.splits)

lemma handleWordClick_starts:
  assumes "clean_word word \<noteq> []" and "effect_deps w \<noteq> Some (Definition, clean_word word)"
  shows "handleWordClick rt svc word w =
     fetchDefinition rt svc
       ((run_cleanup (w\<lparr>app := (app w)\<lparr>definitionTopic := clean_word word, view := Definition\<rparr>\<rparr>))
          \<lparr>effect_deps := Some (Definition, clean_word word)\<rparr>)"
  using assms by (simp add: handleWordClick_def clean_word_def run_effect_def Let_def)

lemma fetches_fetchDefinition:
  "fetches (fetchDefinition rt svc w) =
     fetches w @ [\<lparr>fetch_topic = definitionTopic (app w), isCancelled = False, accumulatedContent = [],
        startTime = now w,
        art_promise = Some (fst (generateAsciiArt rt
           (\<lambda>attempt. gen_answer svc (length (requests (client_env w)) + attempt - 1))
           (definitionTopic (app w)) (client_env w))),
        pending_yields = definition_chunks rt svc (definitionTopic (app w)) (client_env w),
        stream_end = snd (fst (streamDefinition
           (stream_answer svc (length (requests (snd (generateAsciiArt rt
              (\<lambda>attempt. gen_answer svc (length (requests (client_env w)) + attempt - 1))
              (definitionTopic (app w)) (client_env w))))))
           (definitionTopic (app w))
           (snd (generateAsciiArt rt
              (\<lambda>attempt. gen_answer svc (length (requests (client_env w)) + attempt - 1))
              (definitionTopic (app w)) (client_env w))))),
        finished = False\<rparr>]"
  by (simp add: fetchDefinition_def definition_chunks_def Let_def split: prod.splits)

lemma definitionContent_fetchDefinition [simp]:
  "definitionContent (app (fetchDefinition rt svc w)) = []"
  by (simp add: fetchDefinition_def Let_def split: prod.splits)

lemma handleWordClick_started:
  assumes "superseded_cancelled w"
    and "clean_word word \<noteq> []" and "effect_deps w \<noteq> Some (Definition, clean_word word)"
  shows "length (fetches (handleWordClick rt svc word w)) = Suc (length (fetches w))"
    and "others_cancelled (length (fetches w)) (handleWordClick rt svc word w)"
    and "chunk_progress (length (fetches w))
           (definition_chunks rt svc (clean_word word) (client_env w)) 0
           (handleWordClick rt svc word w)"
    and "fetch_topic (fetches (handleWordClick rt svc word w) ! length (fetches w)) = clean_word word"
proof -
  let ?w0 = "(run_cleanup (w\<lparr>app := (app w)\<lparr>definitionTopic := clean_word word, view := Definition\<rparr>\<rparr>))
          \<lparr>effect_deps := Some (Definition, clean_word word)\<rparr>"
  have eq: "handleWordClick rt svc word w = fetchDefinition rt svc ?w0"
    using assms(2,3) by (rule handleWordClick_starts)
  have sc: "superseded_cancelled (w\<lparr>app := (app w)\<lparr>definitionTopic := clean_word word, view := Definition\<rparr>\<rparr>)"
    using assms(1) by (simp add: superseded_cancelled_iff)
  have canc: "\<And>i. i < length (fetches w) \<Longrightarrow> isCancelled (fetches ?w0 ! i)"
    using run_cleanup_cancels[OF sc] by simp
  show "length (fetches (handleWordClick rt svc word w)) = Suc (length (fetches w))"
    by (simp add: eq fetches_fetchDefinition)
  show "others_cancelled (length (fetches w)) (handleWordClick rt svc word w)"
    using canc by (auto simp: eq fetches_fetchDefinition others_cancelled_def nth_append)
  show "chunk_progress (length (fetches w))
           (definition_chunks rt svc (clean_word word) (client_env w)) 0
           (handleWordClick rt svc word w)"
    by (simp add: eq chunk_progress_def fetches_fetchDefinition nth_append)
  show "fetch_topic (fetches (handleWordClick rt svc word w) ! length (fetches w)) = clean_word word"
    by (simp add: eq fetches_fetchDefinition nth_append)
qed

text \<open>
  Claim C2. Let a word be clicked whose cleaned form \<^verbatim>\<open>B\<close> differs from the topic of the
  effect's last run, in a state where the runs superseded earlier are cancelled; the run
  for the previous topic may still be receiving chunks. From the moment the run for \<^verbatim>\<open>B\<close>
  has started, whatever is delivered in whatever order (chunks, ends of streams, settled
  art promises, to the old runs and to the new one), the deliveries to the old runs change
  nothing of the application state: the state is the one reached when they are left out.
  And the definition shown is the concatenation of the chunks of \<^verbatim>\<open>B\<close> delivered so far,
  in their order, with nothing of another topic in it.
\<close>

theorem stale_definition_updates_discarded:
  assumes "superseded_cancelled w"
    and "clean_word word \<noteq> []" and "effect_deps w \<noteq> Some (Definition, clean_word word)"
  shows "app (deliver_all ds (handleWordClick rt svc word w)) =
         app (deliver_all (filter (\<lambda>d. target d = length (fetches w)) ds) (handleWordClick rt svc word w))
     \<and> definitionContent (app (deliver_all ds (handleWordClick rt svc word w))) =
         concat (take (length (filter (\<lambda>d. d = Next_chunk (length (fetches w))) ds))
                   (definition_chunks rt svc (clean_word word) (client_env w)))"
proof -
  note st = handleWordClick_started[OF assms, of rt svc]
  have "same_for (length (fetches w)) (handleWordClick rt svc word w) (handleWordClick rt svc word w)"
    using st(1) by (simp add: same_for_def)
  from projection[OF st(2) this, of ds] have 1: "app (deliver_all ds (handleWordClick rt svc word w)) =
         app (deliver_all (filter (\<lambda>d. target d = length (fetches w)) ds) (handleWordClick rt svc word w))"
    by (simp add: same_for_def)
  from chunk_progress_all[OF st(2) st(3), of ds] have 2:
    "definitionContent (app (deliver_all ds (handleWordClick rt svc word w))) =
         concat (take (length (filter (\<lambda>d. d = Next_chunk (length (fetches w))) ds))
                   (definition_chunks rt svc (clean_word word) (client_env w)))"
    by (simp add: chunk_progress_def)
  from 1 2 show ?thesis by simp
qed

theorem stale_definition_updates_discarded_witness:
  "superseded_cancelled alpha_streaming
   \<and> clean_word ''beta,'' = ''beta''
   \<and> effect_deps alpha_streaming = Some (Definition, ''alpha'')
   \<and> definitionContent (app alpha_streaming) = ''Alpha is ''
   \<and> definitionContent (app (deliver_all
        [Next_chunk 0, Next_chunk 1, Art_settled 0, Next_chunk 0, Next_chunk 1, Art_settled 1]
        (handleWordClick example_runtime streaming_service ''beta,'' alpha_streaming))) =
        ''Beta is second.''"
proof -
  have h1: "superseded_cancelled alpha_streaming"
    by code_simp
  have h2: "clean_word ''beta,'' \<noteq> []"
    by code_simp
  have h3: "effect_deps alpha_streaming \<noteq> Some (Definition, clean_word ''beta,'')"
    by code_simp
  have e: "concat (take (length (filter (\<lambda>d. d = Next_chunk (length (fetches alpha_streaming)))
        [Next_chunk 0, Next_chunk 1, Art_settled 0, Next_chunk 0, Next_chunk 1, Art_settled 1]))
      (definition_chunks example_runtime streaming_service (clean_word ''beta,'')
         (client_env alpha_streaming))) = ''Beta is second.''"
    by code_simp
  have f: "clean_word ''beta,'' = ''beta''"
    "effect_deps alpha_streaming = Some (Definition, ''alpha'')"
    "definitionContent (app alpha_streaming) = ''Alpha is ''"
    by code_simp+
  note th = stale_definition_updates_discarded[OF h1 h2 h3, of
      "[Next_chunk 0, Next_chunk 1, Art_settled 0, Next_chunk 0, Next_chunk 1, Art_settled 1]"
      example_runtime streaming_service]
  note c = trans[OF conjunct2[OF th] e]
  show ?thesis
    by (intro conjI h1 f c)
qed

text \<open>The condition on the superseded runs holds at the start and is kept by the handlers.\<close>

lemma superseded_cancelled_initial: "superseded_cancelled (initial_world e)"
  by (simp add: superseded_cancelled_def initial_world_def)

lemma superseded_cancelled_app:
  "superseded_cancelled w \<Longrightarrow> superseded_cancelled (w\<lparr>app := a\<rparr>)"
  by (simp add: superseded_cancelled_iff)

lemma superseded_cancelled_run_effect:
  assumes "superseded_cancelled w"
  shows "superseded_cancelled (run_effect rt svc w)"
proof -
  have 1: "superseded_cancelled ((run_cleanup w)\<lparr>effect_deps := x\<rparr>)" for x
    using assms
    by (auto simp: superseded_cancelled_iff run_cleanup_def nth_list_update split: option.splits)
  have 2: "superseded_cancelled (fetchDefinition rt svc ((run_cleanup w)\<lparr>effect_deps := x\<rparr>))" for x
    using run_cleanup_cancels[OF assms]
    by (auto simp: superseded_cancelled_iff fetches_fetchDefinition nth_append fetchDefinition_def
        Let_def split: prod.splits)
  show ?thesis
    using assms 1 2 by (simp add: run_effect_def Let_def)
qed

lemma superseded_cancelled_handleWordClick:
  "superseded_cancelled w \<Longrightarrow> superseded_cancelled (handleWordClick rt svc word w)"
  by (simp add: handleWordClick_def Let_def superseded_cancelled_run_effect superseded_cancelled_app)

lemma superseded_cancelled_handleBackToAnalyzer:
  "superseded_cancelled w \<Longrightarrow> superseded_cancelled (handleBackToAnalyzer rt svc w)"
  by (simp add: handleBackToAnalyzer_def superseded_cancelled_run_effect superseded_cancelled_app)

lemma cleanup_deliver [simp]: "cleanup (deliver d w) = cleanup w"
  by (cases d) (auto simp: next_chunk_def art_settled_def Let_def split: list.splits option.splits)

lemma superseded_cancelled_deliver:
  "superseded_cancelled w \<Longrightarrow> superseded_cancelled (deliver d w)"
  by (simp add: superseded_cancelled_iff)

lemma superseded_cancelled_fire:
  assumes "superseded_cancelled w"
  shows "superseded_cancelled (fire rt svc action w)"
proof (cases action)
  case (Update_progress s)
  with assms show ?thesis by (simp add: superseded_cancelled_app)
next
  case (Reveal_words ws)
  with assms show ?thesis by (simp add: superseded_cancelled_app)
next
  case (Reveal_worksheet data)
  with assms show ?thesis
    by (simp add: superseded_cancelled_run_effect superseded_cancelled_app)
next
  case Clear_message
  with assms show ?thesis by (simp add: superseded_cancelled_iff)
qed

lemma superseded_cancelled_advance:
  assumes "superseded_cancelled w"
  shows "superseded_cancelled (advance rt svc t w)"
proof -
  have run: "superseded_cancelled u \<Longrightarrow>
      superseded_cancelled (fold (\<lambda>(due, action). fire rt svc action) ts u)" for ts u
  proof (induction ts arbitrary: u)
    case Nil
    then show ?case by simp
  next
    case (Cons a ts)
    obtain due action where a: "a = (due, action)"
      by (cases a)
    from Cons.prems have "superseded_cancelled (fire rt svc action u)"
      by (rule superseded_cancelled_fire)
    then have "superseded_cancelled (fold (\<lambda>(due, action). fire rt svc action) ts
        (fire rt svc action u))"
      by (rule Cons.IH)
    with a show ?case by simp
  qed
  have start: "superseded_cancelled (w\<lparr>timers := ts, now := n\<rparr>)" for ts n
    using assms by (simp add: superseded_cancelled_iff)
  show ?thesis
    unfolding advance_def by (rule run) (rule start)
qed

lemma superseded_cancelled_same_runs:
  "fetches w' = fetches w \<Longrightarrow> cleanup w' = cleanup w \<Longrightarrow>
   superseded_cancelled w' = superseded_cancelled w"
  by (simp add: superseded_cancelled_iff)

lemma superseded_cancelled_handleAnalyze:
  assumes "superseded_cancelled w"
  shows "superseded_cancelled (handleAnalyze rt svc txt delay w)"
proof -
  have b: "superseded_cancelled (fst (handleAnalyze_begin rt svc txt w))"
    using assms
    by (auto simp: handleAnalyze_begin_def setTimeout_def Let_def superseded_cancelled_iff
        split: prod.splits)
  have e: "superseded_cancelled u \<Longrightarrow> superseded_cancelled (handleAnalyze_end r u)" for r u
    by (auto simp: handleAnalyze_end_def setTimeout_def Let_def superseded_cancelled_iff
        split: sum.splits)
  show ?thesis
    using b e superseded_cancelled_advance
    by (auto simp: handleAnalyze_def split: prod.splits option.splits)
qed

lemma superseded_cancelled_handleGenerateWorksheet:
  assumes "superseded_cancelled w"
  shows "superseded_cancelled (handleGenerateWorksheet rt svc delay w)"
proof -
  have b: "superseded_cancelled (fst (handleGenerateWorksheet_begin rt svc w))"
    using assms
    by (auto simp: handleGenerateWorksheet_begin_def setTimeout_def Let_def superseded_cancelled_iff
        split: prod.splits)
  have e: "superseded_cancelled u \<Longrightarrow> superseded_cancelled (handleGenerateWorksheet_end r u)"
    for r u
    by (auto simp: handleGenerateWorksheet_end_def setTimeout_def Let_def superseded_cancelled_iff
        split: sum.splits)
  show ?thesis
    using b e superseded_cancelled_advance
    by (auto simp: handleGenerateWorksheet_def split: prod.splits option.splits)
qed

lemma superseded_cancelled_other_handlers:
  assumes "superseded_cancelled w"
  shows "superseded_cancelled (handleRandom_begin svc r w)"
    and "superseded_cancelled (handleClear w)"
    and "superseded_cancelled (handleApiKeyChange k w)"
    and "superseded_cancelled (handleSaveKey w)"
    and "superseded_cancelled (handleRemoveKey w)"
  using assms
  by (simp_all add: handleRandom_begin_def handleClear_def handleApiKeyChange_def handleSaveKey_def
      handleRemoveKey_def set_message_def setTimeout_def Let_def superseded_cancelled_iff)

section \<open>Properties of the highlighting\<close>




















lemma length_substring [simp]: "j \<le> length s \<Longrightarrow> length (substring s i j) = j - i"
  by (simp add: substring_def)

lemma nth_substring [simp]: "j \<le> length s \<Longrightarrow> k < j - i \<Longrightarrow> substring s i j ! k = s ! (i + k)"
  by (simp add: substring_def)

lemma substring_empty [simp]: "substring s i i = []"
  by (simp add: substring_def)









































end
